theory Spec2Isabelle
  imports Complex_Main
begin

section \<open>JavaScript numbers\<close>

text \<open>
  Prices, volumes and returns are JavaScript numbers. The numbers that enter the program
  (candle fields, signal fields, parameters) are finite and are read as real numbers, so
  the arithmetic on them is exact: rounding and overflow of doubles are not modelled, and
  neither is the sign of zero. Where the program itself can leave the finite numbers (a
  division by zero, \<^verbatim>\<open>Math.max\<close> of no arguments) the value is a \<open>jsnum\<close>, which adds
  the two infinities and NaN with the IEEE rules of the operations the program uses.
\<close>

datatype jsnum = Fin real | PInf | NInf | NaN

fun js_neg :: "jsnum \<Rightarrow> jsnum" where
  "js_neg (Fin a) = Fin (- a)"
| "js_neg PInf = NInf"
| "js_neg NInf = PInf"
| "js_neg NaN = NaN"

fun js_abs :: "jsnum \<Rightarrow> jsnum" where
  "js_abs (Fin a) = Fin \<bar>a\<bar>"
| "js_abs PInf = PInf"
| "js_abs NInf = PInf"
| "js_abs NaN = NaN"

fun js_add :: "jsnum \<Rightarrow> jsnum \<Rightarrow> jsnum" where
  "js_add (Fin a) (Fin b) = Fin (a + b)"
| "js_add NaN y = NaN"
| "js_add x NaN = NaN"
| "js_add PInf NInf = NaN"
| "js_add NInf PInf = NaN"
| "js_add PInf y = PInf"
| "js_add NInf y = NInf"
| "js_add x PInf = PInf"
| "js_add x NInf = NInf"

definition js_sub :: "jsnum \<Rightarrow> jsnum \<Rightarrow> jsnum" where
  "js_sub x y = js_add x (js_neg y)"

fun js_mul :: "jsnum \<Rightarrow> jsnum \<Rightarrow> jsnum" where
  "js_mul (Fin a) (Fin b) = Fin (a * b)"
| "js_mul NaN y = NaN"
| "js_mul x NaN = NaN"
| "js_mul PInf (Fin b) = (if b = 0 then NaN else if 0 < b then PInf else NInf)"
| "js_mul NInf (Fin b) = (if b = 0 then NaN else if 0 < b then NInf else PInf)"
| "js_mul (Fin a) PInf = (if a = 0 then NaN else if 0 < a then PInf else NInf)"
| "js_mul (Fin a) NInf = (if a = 0 then NaN else if 0 < a then NInf else PInf)"
| "js_mul PInf PInf = PInf"
| "js_mul PInf NInf = NInf"
| "js_mul NInf PInf = NInf"
| "js_mul NInf NInf = PInf"

fun js_div :: "jsnum \<Rightarrow> jsnum \<Rightarrow> jsnum" where
  "js_div (Fin a) (Fin b) =
     (if b = 0 then (if a = 0 then NaN else if 0 < a then PInf else NInf) else Fin (a / b))"
| "js_div NaN y = NaN"
| "js_div x NaN = NaN"
| "js_div (Fin a) PInf = Fin 0"
| "js_div (Fin a) NInf = Fin 0"
| "js_div PInf (Fin b) = (if 0 \<le> b then PInf else NInf)"
| "js_div NInf (Fin b) = (if 0 \<le> b then NInf else PInf)"
| "js_div PInf PInf = NaN"
| "js_div PInf NInf = NaN"
| "js_div NInf PInf = NaN"
| "js_div NInf NInf = NaN"

text \<open>Comparisons: every comparison with NaN is false.\<close>

fun js_lt :: "jsnum \<Rightarrow> jsnum \<Rightarrow> bool" where
  "js_lt (Fin a) (Fin b) = (a < b)"
| "js_lt NaN y = False"
| "js_lt x NaN = False"
| "js_lt PInf y = False"
| "js_lt x NInf = False"
| "js_lt NInf y = True"
| "js_lt x PInf = True"

fun js_le :: "jsnum \<Rightarrow> jsnum \<Rightarrow> bool" where
  "js_le (Fin a) (Fin b) = (a \<le> b)"
| "js_le NaN y = False"
| "js_le x NaN = False"
| "js_le NInf y = True"
| "js_le x PInf = True"
| "js_le PInf y = False"
| "js_le x NInf = False"

definition js_gt :: "jsnum \<Rightarrow> jsnum \<Rightarrow> bool" where
  "js_gt x y = js_lt y x"

definition js_ge :: "jsnum \<Rightarrow> jsnum \<Rightarrow> bool" where
  "js_ge x y = js_le y x"

text \<open>\<^verbatim>\<open>x === 0\<close> on numbers.\<close>

fun js_is_zero :: "jsnum \<Rightarrow> bool" where
  "js_is_zero (Fin a) = (a = 0)"
| "js_is_zero x = False"

text \<open>
  \<^verbatim>\<open>Math.max(...xs)\<close> and \<^verbatim>\<open>Math.min(...xs)\<close> on finite numbers: with no argument they
  are \<^verbatim>\<open>-Infinity\<close> and \<^verbatim>\<open>Infinity\<close>.
\<close>

definition Math_max :: "real list \<Rightarrow> jsnum" where
  "Math_max xs = (if xs = [] then NInf else Fin (Max (set xs)))"

definition Math_min :: "real list \<Rightarrow> jsnum" where
  "Math_min xs = (if xs = [] then PInf else Fin (Min (set xs)))"

section \<open>Candles and signals\<close>

text \<open>
  A candle as the strategies read it: \<^verbatim>\<open>{date, open, high, low, close, volume}\<close>.
\<close>

record candle =
  c_date :: string
  c_open :: real
  c_high :: real
  c_low :: real
  c_close :: real
  c_volume :: real

datatype side = LONG | SHORT

text \<open>\<^verbatim>\<open>interface Signal\<close> of the portfolio backtest (getPortfolio.ts).\<close>

record signal =
  sig_symbol :: string
  sig_side :: side
  sig_entryPrice :: real
  sig_stop :: real
  sig_target1 :: real
  sig_rangeHeight :: real
  sig_candles :: "candle list"
  sig_relVol :: real

text \<open>\<^verbatim>\<open>interface Trade\<close> of the portfolio backtest (getPortfolio.ts).\<close>

record trade =
  tr_symbol :: string
  tr_entryTime :: string
  tr_exitTime :: string
  tr_side :: side
  tr_entryPrice :: real
  tr_exitPrice :: real
  tr_pnl :: real
  tr_returnPercent :: jsnum
  tr_reason :: string
  tr_relVol :: real

section \<open>simulateTrade (getPortfolio.ts)\<close>

text \<open>
  The local \<^verbatim>\<open>position\<close> of \<^verbatim>\<open>simulateTrade\<close> is a copy of the signal with three more
  fields; only these three are ever written, so the model keeps them apart from the
  signal, which stays fixed. The loop also writes \<^verbatim>\<open>exitPrice\<close> and \<^verbatim>\<open>reason\<close>.
\<close>

record sim_state =
  scaledOut :: bool
  stop :: real
  pnlAcc :: real
  exitPrice :: real
  reason :: string

definition sim_init :: "signal \<Rightarrow> sim_state" where
  "sim_init sg =
     \<lparr>scaledOut = False, stop = sig_stop sg, pnlAcc = 0, exitPrice = 0, reason = ''''\<rparr>"

text \<open>Step 1 of the loop body, \<^verbatim>\<open>// 1. Target 1 (Scale Out)\<close>, for either side.\<close>

definition scaleOut :: "signal \<Rightarrow> candle \<Rightarrow> sim_state \<Rightarrow> sim_state" where
  "scaleOut sg c st =
     (if sig_side sg = LONG then
        (if \<not> scaledOut st \<and> c_high c \<ge> sig_target1 sg
         then st\<lparr>pnlAcc := pnlAcc st + (sig_target1 sg - sig_entryPrice sg) * 0.5,
                 stop := sig_entryPrice sg, scaledOut := True\<rparr>
         else st)
      else
        (if \<not> scaledOut st \<and> c_low c \<le> sig_target1 sg
         then st\<lparr>pnlAcc := pnlAcc st + (sig_entryPrice sg - sig_target1 sg) * 0.5,
                 stop := sig_entryPrice sg, scaledOut := True\<rparr>
         else st))"

text \<open>The condition of step 2, \<^verbatim>\<open>// 2. Stop\<close>, read after step 1 has run.\<close>

definition stopHit :: "signal \<Rightarrow> candle \<Rightarrow> sim_state \<Rightarrow> bool" where
  "stopHit sg c st =
     (if sig_side sg = LONG then c_low c \<le> stop st else c_high c \<ge> stop st)"

text \<open>
  The \<^verbatim>\<open>for\<close> loop over \<^verbatim>\<open>sig.candles\<close>. A stop leaves the loop (\<^verbatim>\<open>break\<close>); the last
  candle (\<^verbatim>\<open>i === candles.length - 1\<close>) that was not stopped writes the end-of-day exit,
  after which the loop ends.
\<close>

fun simLoop :: "signal \<Rightarrow> candle list \<Rightarrow> sim_state \<Rightarrow> sim_state" where
  "simLoop sg [] st = st"
| "simLoop sg (c # cs) st =
     (let st1 = scaleOut sg c st in
      if stopHit sg c st1
      then st1\<lparr>exitPrice := stop st1,
               reason := (if scaledOut st1 then ''TRAIL_STOP'' else ''STOP'')\<rparr>
      else if cs = []
      then st1\<lparr>exitPrice := c_close c, reason := ''EOD''\<rparr>
      else simLoop sg cs st1)"


section \<open>checkSignal (getPortfolio.ts)\<close>

text \<open>
  The trigger loop \<^verbatim>\<open>for (let i = 6; i < candles.length; i++)\<close>, run on the candles from
  index \<open>i\<close> on. A candle with a positive volume below 0.8 times the average is skipped
  (\<^verbatim>\<open>continue\<close>); the first other candle that breaches the range ends the loop
  (\<^verbatim>\<open>break\<close>) with its index, the side and the relative volume.
\<close>

fun scanTrigger :: "real \<Rightarrow> real \<Rightarrow> real \<Rightarrow> nat \<Rightarrow> candle list \<Rightarrow> (nat \<times> side \<times> real) option" where
  "scanTrigger rangeHigh rangeLow avgVol i [] = None"
| "scanTrigger rangeHigh rangeLow avgVol i (c # cs) =
     (if c_volume c > 0 \<and> c_volume c < avgVol * 0.8
      then scanTrigger rangeHigh rangeLow avgVol (Suc i) cs
      else
        let rv = (if avgVol > 0 then c_volume c / avgVol else 0) in
        if c_high c > rangeHigh then Some (i, LONG, rv)
        else if c_low c < rangeLow then Some (i, SHORT, rv)
        else scanTrigger rangeHigh rangeLow avgVol (Suc i) cs)"

text \<open>
  The opening range is the first six candles; the length test before it makes the window
  non-empty, so its maximum and minimum are finite. The gap and the range percent divide
  by numbers that can be zero, and are compared as JavaScript compares them.
\<close>

definition checkSignal :: "string \<Rightarrow> candle list \<Rightarrow> real \<Rightarrow> signal option" where
  "checkSignal symbol candles prevClose =
     (if length candles < 7 then None
      else
        let openingRange = take 6 candles;
            rangeHigh = Max (set (map c_high openingRange));
            rangeLow = Min (set (map c_low openingRange));
            avgVol = sum_list (map c_volume openingRange) / 6
        in
        if c_close (candles ! 0) < 5 then None
        else
          let gapPct = js_abs (js_div (Fin (c_open (candles ! 0) - prevClose)) (Fin prevClose)) in
          if js_lt gapPct (Fin 0.002) then None
          else
            let rangeHeight = rangeHigh - rangeLow;
                rangePct = js_div (Fin rangeHeight) (Fin rangeLow)
            in
            if js_lt rangePct (Fin 0.005) \<or> js_gt rangePct (Fin 0.12) then None
            else
              (case scanTrigger rangeHigh rangeLow avgVol 6 (drop 6 candles) of
                 None \<Rightarrow> None
               | Some (triggerIndex, sd, relVol) \<Rightarrow>
                   Some \<lparr>sig_symbol = symbol, sig_side = sd,
                         sig_entryPrice = (if sd = LONG then rangeHigh else rangeLow),
                         sig_stop = (if sd = LONG then rangeLow else rangeHigh),
                         sig_target1 = (if sd = LONG then rangeHigh + rangeHeight
                                        else rangeLow - rangeHeight),
                         sig_rangeHeight = rangeHeight,
                         sig_candles = drop triggerIndex candles,
                         sig_relVol = relVol\<rparr>))"

text \<open>
  The trigger condition of \<^verbatim>\<open>checkSignal\<close>'s loop as the code has it, in one predicate: the
  candle is not skipped by \<^verbatim>\<open>if (c.volume > 0 && c.volume < avgVol * 0.8) continue\<close>, and it
  breaches the range on either side. A candle of volume zero is not skipped.
\<close>

definition triggers :: "real \<Rightarrow> real \<Rightarrow> real \<Rightarrow> candle \<Rightarrow> bool" where
  "triggers rangeHigh rangeLow avgVol c =
     (\<not> (c_volume c > 0 \<and> c_volume c < avgVol * 0.8)
      \<and> (c_high c > rangeHigh \<or> c_low c < rangeLow))"

text \<open>
  The volume gate in the words of the specification (section 4.2), for comparison with
  the filter of the code: the volume of the bar is at least \<open>volumeMultiple\<close> times the
  average volume of the opening range.
\<close>

definition specVolumeGate :: "real \<Rightarrow> real \<Rightarrow> candle \<Rightarrow> bool" where
  "specVolumeGate volumeMultiple averageVolume c =
     (c_volume c \<ge> volumeMultiple * averageVolume)"

section \<open>backtestDay (the intraday ORB backtest)\<close>

text \<open>
  \<^verbatim>\<open>interface ORBParams\<close>. \<open>rangeMinutes\<close> is a number of candles: the function slices
  and indexes the day with it, so it is a natural number here. The other numbers are reals.
\<close>

record ORBParams =
  rangeMinutes :: nat
  profitTargetR :: real
  stopLossR :: real
  useTrailingStop :: bool
  trailingStopPercent :: "real option"
  maxHoldMinutes :: real

record IntradayTrade =
  it_symbol :: string
  it_entryTime :: string
  it_exitTime :: string
  it_side :: side
  it_entryPrice :: jsnum
  it_exitPrice :: jsnum
  it_quantity :: real
  it_pnl :: jsnum
  it_pnlPercent :: jsnum
  it_reason :: string
  it_maxRunup :: real
  it_maxDrawdown :: real

text \<open>
  The local variables of \<^verbatim>\<open>backtestDay\<close> that its loop writes. With \<open>rangeMinutes = 0\<close>
  the range is taken over no candle and the prices are infinite, hence \<open>jsnum\<close>.
  \<^verbatim>\<open>quantity\<close> is the constant 100.
\<close>

record bt_state =
  inPosition :: bool
  entryPrice :: jsnum
  stopPrice :: jsnum
  targetPrice :: jsnum
  bt_side :: side
  entryTime :: string

definition bt_init :: bt_state where
  "bt_init = \<lparr>inPosition = False, entryPrice = Fin 0, stopPrice = Fin 0,
              targetPrice = Fin 0, bt_side = LONG, entryTime = ''''\<rparr>"

text \<open>The object literal that each of the four \<^verbatim>\<open>return\<close>s of \<^verbatim>\<open>backtestDay\<close> builds.\<close>

definition exitTrade :: "string \<Rightarrow> bt_state \<Rightarrow> string \<Rightarrow> jsnum \<Rightarrow> string \<Rightarrow> IntradayTrade" where
  "exitTrade symbol st exitTime exitPx why =
     \<lparr>it_symbol = symbol, it_entryTime = entryTime st, it_exitTime = exitTime,
      it_side = bt_side st, it_entryPrice = entryPrice st, it_exitPrice = exitPx,
      it_quantity = 100,
      it_pnl = js_mul (js_sub exitPx (entryPrice st)) (Fin 100),
      it_pnlPercent = js_mul (js_div (js_sub exitPx (entryPrice st)) (entryPrice st)) (Fin 100),
      it_reason = why, it_maxRunup = 0, it_maxDrawdown = 0\<rparr>"

text \<open>
  The loop \<^verbatim>\<open>for (let i = params.rangeMinutes; i < dailyData.length; i++)\<close>, run on the
  candles from index \<open>i\<close> on. \<open>Inl\<close> is a \<^verbatim>\<open>return\<close> from inside the loop, \<open>Inr\<close> the state
  with which the loop ends. The entry candle itself is not checked for an exit.
\<close>

fun btLoop :: "string \<Rightarrow> ORBParams \<Rightarrow> jsnum \<Rightarrow> jsnum \<Rightarrow> jsnum \<Rightarrow> nat \<Rightarrow> candle list \<Rightarrow> bt_state
    \<Rightarrow> IntradayTrade + bt_state" where
  "btLoop symbol params rangeHigh rangeLow rangeHeight i [] st = Inr st"
| "btLoop symbol params rangeHigh rangeLow rangeHeight i (candle # rest) st =
     (if \<not> inPosition st then
        (if js_gt (Fin (c_high candle)) rangeHigh then
           let ep = js_add rangeHigh (Fin 0.01) in
           btLoop symbol params rangeHigh rangeLow rangeHeight (Suc i) rest
             (st\<lparr>bt_side := LONG, entryPrice := ep, entryTime := c_date candle,
                  stopPrice := rangeLow,
                  targetPrice := js_add ep (js_mul rangeHeight (Fin (profitTargetR params))),
                  inPosition := True\<rparr>)
         else btLoop symbol params rangeHigh rangeLow rangeHeight (Suc i) rest st)
      else if js_le (Fin (c_low candle)) (stopPrice st) then
        Inl (exitTrade symbol st (c_date candle) (stopPrice st) ''STOP_LOSS'')
      else if js_ge (Fin (c_high candle)) (targetPrice st) then
        Inl (exitTrade symbol st (c_date candle) (targetPrice st) ''TARGET_HIT'')
      else if real i \<ge> real (rangeMinutes params) + maxHoldMinutes params then
        Inl (exitTrade symbol st (c_date candle) (Fin (c_close candle)) ''TIME_EXIT'')
      else btLoop symbol params rangeHigh rangeLow rangeHeight (Suc i) rest st)"

definition backtestDay :: "string \<Rightarrow> candle list \<Rightarrow> ORBParams \<Rightarrow> IntradayTrade option" where
  "backtestDay symbol dailyData params =
     (if length dailyData < rangeMinutes params + 1 then None
      else
        let openingRange = take (rangeMinutes params) dailyData;
            rangeHigh = Math_max (map c_high openingRange);
            rangeLow = Math_min (map c_low openingRange);
            rangeHeight = js_sub rangeHigh rangeLow
        in
        if js_is_zero rangeHeight then None
        else
          (case btLoop symbol params rangeHigh rangeLow rangeHeight (rangeMinutes params)
                  (drop (rangeMinutes params) dailyData) bt_init of
             Inl t \<Rightarrow> Some t
           | Inr st \<Rightarrow>
               if inPosition st then
                 let lastCandle = dailyData ! (length dailyData - 1) in
                 Some (exitTrade symbol st (c_date lastCandle) (Fin (c_close lastCandle)) ''EOD_EXIT'')
               else None))"

subsection \<open>backtestIntraday\<close>

text \<open>
  \<^verbatim>\<open>candle.date.split('T')[0]\<close>: the date up to its first \<open>T\<close>, the whole of it when it
  has none.
\<close>

definition dayOf :: "string \<Rightarrow> string" where
  "dayOf d = takeWhile (\<lambda>ch. ch \<noteq> CHR ''T'') d"

text \<open>
  \<^verbatim>\<open>groupCandlesByDay\<close> fills an object keyed by day; the model is an association list in
  the order in which the days first appear, which is the order in which
  \<^verbatim>\<open>for (const dayDate in days)\<close> visits keys of the form \<^verbatim>\<open>YYYY-MM-DD\<close>.
\<close>

fun pushCandle :: "string \<Rightarrow> candle \<Rightarrow> (string \<times> candle list) list \<Rightarrow> (string \<times> candle list) list" where
  "pushCandle day c [] = [(day, [c])]"
| "pushCandle day c ((k, cs) # groups) =
     (if k = day then (k, cs @ [c]) # groups else (k, cs) # pushCandle day c groups)"

definition groupCandlesByDay :: "candle list \<Rightarrow> (string \<times> candle list) list" where
  "groupCandlesByDay data =
     foldl (\<lambda>groups candle. pushCandle (dayOf (c_date candle)) candle groups) [] data"

definition backtestIntraday :: "candle list \<Rightarrow> string \<Rightarrow> ORBParams \<Rightarrow> IntradayTrade list" where
  "backtestIntraday data symbol params =
     List.map_filter (\<lambda>(dayDate, dayCandles). backtestDay symbol dayCandles params)
       (groupCandlesByDay data)"

subsection \<open>The clock of the market simulator\<close>

text \<open>
  \<^verbatim>\<open>getTimeDiffMinutes\<close> of the \<^verbatim>\<open>MarketSimulator\<close>, with which the simulator decides its
  own time exit: \<^verbatim>\<open>(new Date(d2).getTime() - new Date(d1).getTime()) / 60000\<close>. The two
  dates are candle dates, ISO timestamps \<^verbatim>\<open>YYYY-MM-DDTHH:MM:00.000Z\<close>; the model reads
  hour and minute from their fixed places and covers two timestamps of one day, which
  is what the candles of one session carry.
\<close>

definition digitOf :: "char \<Rightarrow> nat" where
  "digitOf ch = of_char ch - 48"

definition minuteOfDay :: "string \<Rightarrow> nat" where
  "minuteOfDay d =
     60 * (10 * digitOf (d ! 11) + digitOf (d ! 12)) + (10 * digitOf (d ! 14) + digitOf (d ! 15))"

definition getTimeDiffMinutes :: "string \<Rightarrow> string \<Rightarrow> real" where
  "getTimeDiffMinutes d1 d2 = real (minuteOfDay d2) - real (minuteOfDay d1)"

section \<open>checkPosition (trade_bot.ts)\<close>

datatype status = OPEN | CLOSED

text \<open>\<^verbatim>\<open>interface Position\<close> of the live bot; \<^verbatim>\<open>pnl\<close> is optional.\<close>

record Position =
  pos_symbol :: string
  pos_side :: side
  pos_entryPrice :: real
  pos_quantity :: real
  pos_initialQty :: real
  pos_stopLoss :: real
  pos_target1 :: real
  pos_timestamp :: string
  pos_status :: status
  pos_scaledOut :: bool
  pos_pnl :: "real option"
  pos_rangeHeight :: real

text \<open>
  \<^verbatim>\<open>checkPosition\<close> mutates the position it is given; the model returns the position
  after the call. The second argument is what \<^verbatim>\<open>fetchIntradayData\<close> gave: nothing, or the
  candles of the day, of which only the last close is read. The log lines are left out:
  they do not touch the position.
\<close>

definition checkPosition :: "Position \<Rightarrow> candle list option \<Rightarrow> Position" where
  "checkPosition pos fetched =
     (case fetched of
        None \<Rightarrow> pos
      | Some data \<Rightarrow>
          if length data = 0 then pos
          else
            let currentPrice = c_close (data ! (length data - 1)) in
            if pos_side pos = LONG then
              let pos1 = (if \<not> pos_scaledOut pos \<and> currentPrice \<ge> pos_target1 pos
                          then pos\<lparr>pos_quantity := of_int \<lfloor>pos_quantity pos * 0.5\<rfloor>,
                                   pos_stopLoss := pos_entryPrice pos,
                                   pos_scaledOut := True\<rparr>
                          else pos)
              in if currentPrice \<le> pos_stopLoss pos1
                 then pos1\<lparr>pos_status := CLOSED,
                           pos_pnl := Some (pos_stopLoss pos1 - pos_entryPrice pos1)\<rparr>
                 else pos1
            else
              let pos1 = (if \<not> pos_scaledOut pos \<and> currentPrice \<le> pos_target1 pos
                          then pos\<lparr>pos_quantity := of_int \<lfloor>pos_quantity pos * 0.5\<rfloor>,
                                   pos_stopLoss := pos_entryPrice pos,
                                   pos_scaledOut := True\<rparr>
                          else pos)
              in if currentPrice \<ge> pos_stopLoss pos1
                 then pos1\<lparr>pos_status := CLOSED,
                           pos_pnl := Some (pos_entryPrice pos1 - pos_stopLoss pos1)\<rparr>
                 else pos1)"

text \<open>
  The bot calls \<^verbatim>\<open>checkPosition\<close> once per run on the same position object; a sequence of
  runs is a fold over what each run fetched.
\<close>

fun checkPositions :: "Position \<Rightarrow> candle list option list \<Rightarrow> Position" where
  "checkPositions pos [] = pos"
| "checkPositions pos (f # fs) = checkPositions (checkPosition pos f) fs"

section \<open>aggregateResults (the gap-fill backtest)\<close>

datatype exitReason = gap_filled | stop_loss | time_exit | eod_close

text \<open>\<^verbatim>\<open>interface Trade\<close> and \<^verbatim>\<open>interface BacktestResult\<close> of the gap-fill strategy.\<close>

record gap_trade =
  gt_symbol :: string
  gt_entryDate :: string
  gt_exitDate :: string
  gt_entryPrice :: real
  gt_exitPrice :: real
  gt_gapPercent :: real
  gt_pnlPercent :: real
  gt_won :: bool
  gt_exitReason :: exitReason

record BacktestResult =
  totalTrades :: nat
  wins :: nat
  losses :: nat
  winRate :: real
  avgWinPercent :: real
  avgLossPercent :: real
  profitFactor :: jsnum
  totalReturn :: real
  maxDrawdown :: real
  trades :: "gap_trade list"

text \<open>
  The loop over the trades that compounds the returns; the state is
  \<^verbatim>\<open>(cumulative, peak, maxDrawdown)\<close>. The peak starts at 100 and never falls, so the
  division by it is a division by a positive number.
\<close>

fun drawdownLoop :: "gap_trade list \<Rightarrow> real \<times> real \<times> real \<Rightarrow> real \<times> real \<times> real" where
  "drawdownLoop [] s = s"
| "drawdownLoop (t # ts) (cumulative, peak, maxDd) =
     (let cumulative' = cumulative * (1 + gt_pnlPercent t / 100);
          peak' = max peak cumulative';
          drawdown = (peak' - cumulative') / peak' * 100
      in drawdownLoop ts (cumulative', peak', max maxDd drawdown))"

definition aggregateResults :: "gap_trade list \<Rightarrow> BacktestResult" where
  "aggregateResults ts =
     (if length ts = 0 then
        \<lparr>totalTrades = 0, wins = 0, losses = 0, winRate = 0, avgWinPercent = 0,
         avgLossPercent = 0, profitFactor = Fin 0, totalReturn = 0, maxDrawdown = 0,
         trades = []\<rparr>
      else
        let ws = filter (\<lambda>t. gt_won t) ts;
            ls = filter (\<lambda>t. \<not> gt_won t) ts;
            avgWin = (if length ws > 0
                      then sum_list (map gt_pnlPercent ws) / real (length ws) else 0);
            avgLoss = (if length ls > 0
                       then \<bar>sum_list (map gt_pnlPercent ls) / real (length ls)\<bar> else 0);
            totalWins = sum_list (map gt_pnlPercent ws);
            totalLosses = \<bar>sum_list (map gt_pnlPercent ls)\<bar>;
            pf = (if totalLosses > 0 then Fin (totalWins / totalLosses)
                  else if totalWins > 0 then PInf else Fin 0);
            (cumulative, peak, maxDd) = drawdownLoop ts (100, 100, 0)
        in
        \<lparr>totalTrades = length ts, wins = length ws, losses = length ls,
         winRate = real (length ws) / real (length ts) * 100,
         avgWinPercent = avgWin, avgLossPercent = avgLoss, profitFactor = pf,
         totalReturn = cumulative - 100, maxDrawdown = maxDd, trades = ts\<rparr>)"

section \<open>loadState (trade_bot.ts, lose_bot.ts)\<close>

text \<open>\<^verbatim>\<open>interface BotState\<close>; \<^verbatim>\<open>ranges\<close> is an object keyed by symbol.\<close>

record range_entry =
  re_high :: real
  re_low :: real
  re_avgVol :: real
  re_prevClose :: real

record BotState =
  bs_date :: string
  bs_positions :: "Position list"
  bs_ranges :: "string \<rightharpoonup> range_entry"
  bs_executed_trades :: nat

text \<open>\<^verbatim>\<open>interface LoseState\<close> of the inverse bot.\<close>

record ExecutedTrade =
  et_symbol :: string
  et_quantity :: real
  et_price :: real
  et_reason :: string
  et_timestamp :: string

record LoseState =
  ls_date :: string
  ls_executedTrades :: "ExecutedTrade list"
  ls_heldSymbols :: "string list"
  ls_totalSpent :: real

text \<open>
  What the three library calls of \<^verbatim>\<open>loadState\<close> find, in the order in which they run:
  \<^verbatim>\<open>fs.existsSync\<close> is false (\<open>Missing\<close>); \<^verbatim>\<open>fs.readFileSync\<close> throws (\<open>Unreadable\<close>);
  \<^verbatim>\<open>JSON.parse\<close> throws on text that is not JSON (\<open>Corrupt\<close>); it returns \<^verbatim>\<open>null\<close>, on
  which reading \<^verbatim>\<open>.date\<close> throws (\<open>Null_json\<close>); it returns a value with no \<^verbatim>\<open>date\<close>, such
  as a number or \<^verbatim>\<open>{}\<close> (\<open>No_date\<close>); or it returns a stored state.
\<close>

datatype 's state_file = Missing | Unreadable | Corrupt | Null_json | No_date | Stored 's

datatype exn = ReadError | SyntaxError | TypeError

text \<open>
  \<^verbatim>\<open>loadState\<close> of trade_bot.ts. \<open>today\<close> is
  \<^verbatim>\<open>new Date().toISOString().split('T')[0]\<close>. The function has no \<^verbatim>\<open>try\<close>: an exception of
  a library call leaves it (\<open>Inl\<close>).
\<close>

definition loadState :: "string \<Rightarrow> BotState state_file \<Rightarrow> exn + BotState" where
  "loadState today file =
     (let fresh = \<lparr>bs_date = today, bs_positions = [], bs_ranges = Map.empty,
                   bs_executed_trades = 0\<rparr>
      in case file of
           Missing \<Rightarrow> Inr fresh
         | Unreadable \<Rightarrow> Inl ReadError
         | Corrupt \<Rightarrow> Inl SyntaxError
         | Null_json \<Rightarrow> Inl TypeError
         | No_date \<Rightarrow> Inr fresh
         | Stored state \<Rightarrow> if bs_date state = today then Inr state else Inr fresh)"

text \<open>
  \<^verbatim>\<open>loadState\<close> of lose_bot.ts, the sibling of the above: the read, the parse and the
  date test sit in \<^verbatim>\<open>try { ... } catch { /* fall through */ }\<close>.
\<close>

definition loadState_lose :: "string \<Rightarrow> LoseState state_file \<Rightarrow> exn + LoseState" where
  "loadState_lose today file =
     (let fresh = \<lparr>ls_date = today, ls_executedTrades = [], ls_heldSymbols = [],
                   ls_totalSpent = 0\<rparr>
      in case file of
           Missing \<Rightarrow> Inr fresh
         | Unreadable \<Rightarrow> Inr fresh
         | Corrupt \<Rightarrow> Inr fresh
         | Null_json \<Rightarrow> Inr fresh
         | No_date \<Rightarrow> Inr fresh
         | Stored raw \<Rightarrow> if ls_date raw = today then Inr raw else Inr fresh)"

section \<open>The report of runPortfolioBacktest (getPortfolio.ts)\<close>

text \<open>
  Step 4 of \<^verbatim>\<open>runPortfolioBacktest\<close>, \<^verbatim>\<open>// 4. Report\<close>: the figures that are printed,
  before \<^verbatim>\<open>toFixed(2)\<close> turns them into text, as a function of the executed trades. The
  divisions have no guard, so the figures are \<open>jsnum\<close>s.
\<close>

record report =
  rp_executed :: nat
  rp_winRate :: jsnum
  rp_avgReturn :: jsnum
  rp_totalReturn :: jsnum
  rp_profitFactor :: jsnum

definition sumReturns :: "trade list \<Rightarrow> jsnum" where
  "sumReturns ts = foldl (\<lambda>sum t. js_add sum (tr_returnPercent t)) (Fin 0) ts"

definition portfolioReport :: "trade list \<Rightarrow> report" where
  "portfolioReport portfolioTrades =
     (let wins = filter (\<lambda>t. tr_pnl t > 0) portfolioTrades;
          winRate = js_mul (js_div (Fin (real (length wins)))
                                   (Fin (real (length portfolioTrades)))) (Fin 100);
          totalReturn = sumReturns portfolioTrades;
          avgReturn = js_div totalReturn (Fin (real (length portfolioTrades)))
      in \<lparr>rp_executed = length portfolioTrades,
          rp_winRate = winRate,
          rp_avgReturn = avgReturn,
          rp_totalReturn = totalReturn,
          rp_profitFactor =
            js_div (sumReturns wins)
                   (js_abs (sumReturns (filter (\<lambda>t. tr_pnl t < 0) portfolioTrades)))\<rparr>)"

section \<open>Concrete sessions, positions and ledgers\<close>

text \<open>
  Scenario 1 of the specification: a LONG signal at 102 with stop 100 and target 104,
  whose candles are the trigger bar, a bar that reaches 104, a bar whose low touches 102,
  and one more bar.
\<close>

definition scenario1 :: signal where
  "scenario1 =
     \<lparr>sig_symbol = ''XYZ'', sig_side = LONG, sig_entryPrice = 102, sig_stop = 100,
      sig_target1 = 104, sig_rangeHeight = 2,
      sig_candles =
        [\<lparr>c_date = ''2024-01-02T15:00:00.000Z'', c_open = 101.5, c_high = 102.5,
          c_low = 101, c_close = 102.3, c_volume = 1300\<rparr>,
         \<lparr>c_date = ''2024-01-02T15:05:00.000Z'', c_open = 102.3, c_high = 104.2,
          c_low = 102.2, c_close = 104, c_volume = 900\<rparr>,
         \<lparr>c_date = ''2024-01-02T15:10:00.000Z'', c_open = 104, c_high = 104.1,
          c_low = 102, c_close = 102.4, c_volume = 800\<rparr>,
         \<lparr>c_date = ''2024-01-02T15:15:00.000Z'', c_open = 102.4, c_high = 103,
          c_low = 102.1, c_close = 102.9, c_volume = 700\<rparr>],
      sig_relVol = 1.3\<rparr>"

text \<open>The trade that \<^verbatim>\<open>simulateTrade\<close> returns for scenario 1.\<close>

definition scenario1Trade :: trade where
  "scenario1Trade =
     \<lparr>tr_symbol = ''XYZ'', tr_entryTime = ''2024-01-02T15:00:00.000Z'',
      tr_exitTime = ''2024-01-02T15:15:00.000Z'', tr_side = LONG, tr_entryPrice = 102,
      tr_exitPrice = 102, tr_pnl = 1, tr_returnPercent = Fin (50 / 51),
      tr_reason = ''TRAIL_STOP'', tr_relVol = 1.3\<rparr>"

text \<open>
  A session of eleven five-minute candles: an opening range of six candles with high 102,
  low 100 and average volume 1000, a quiet bar, and then the four candles of scenario 1.
  The previous close is 99.
\<close>

definition gapSession :: "candle list" where
  "gapSession =
     [\<lparr>c_date = ''2024-01-02T14:30:00.000Z'', c_open = 100.5, c_high = 101.2,
       c_low = 100, c_close = 101, c_volume = 1400\<rparr>,
      \<lparr>c_date = ''2024-01-02T14:35:00.000Z'', c_open = 101, c_high = 102,
       c_low = 100.8, c_close = 101.6, c_volume = 1100\<rparr>,
      \<lparr>c_date = ''2024-01-02T14:40:00.000Z'', c_open = 101.6, c_high = 101.9,
       c_low = 101, c_close = 101.2, c_volume = 1000\<rparr>,
      \<lparr>c_date = ''2024-01-02T14:45:00.000Z'', c_open = 101.2, c_high = 101.5,
       c_low = 100.6, c_close = 101, c_volume = 900\<rparr>,
      \<lparr>c_date = ''2024-01-02T14:50:00.000Z'', c_open = 101, c_high = 101.4,
       c_low = 100.7, c_close = 101.3, c_volume = 800\<rparr>,
      \<lparr>c_date = ''2024-01-02T14:55:00.000Z'', c_open = 101.3, c_high = 101.8,
       c_low = 101.1, c_close = 101.5, c_volume = 800\<rparr>,
      \<lparr>c_date = ''2024-01-02T14:58:00.000Z'', c_open = 101.5, c_high = 101.9,
       c_low = 101.2, c_close = 101.5, c_volume = 1000\<rparr>]
     @ sig_candles scenario1"




text \<open>Two open positions of the live bot, and what a fetch returns at a given last close.\<close>

definition longPosition :: Position where
  "longPosition =
     \<lparr>pos_symbol = ''NVDA'', pos_side = LONG, pos_entryPrice = 102, pos_quantity = 235,
      pos_initialQty = 235, pos_stopLoss = 100, pos_target1 = 104,
      pos_timestamp = ''2024-01-02T15:00:00.000Z'', pos_status = OPEN, pos_scaledOut = False,
      pos_pnl = None, pos_rangeHeight = 2\<rparr>"


definition lastClose :: "real \<Rightarrow> candle list" where
  "lastClose p =
     [\<lparr>c_date = ''2024-01-02T15:30:00.000Z'', c_open = p, c_high = p, c_low = p,
       c_close = p, c_volume = 500\<rparr>]"

text \<open>
  A day of one-minute candles for \<^verbatim>\<open>backtestDay\<close> with a two-minute opening range
  (high 102, low 100): the third candle breaks out, so the entry is at 102.01 with the stop
  at 100 and, for a target of two range heights, the target at 106.01; the fourth candle
  reaches both.
\<close>

definition orbParams :: ORBParams where
  "orbParams = \<lparr>rangeMinutes = 2, profitTargetR = 2, stopLossR = 1, useTrailingStop = False,
     trailingStopPercent = None, maxHoldMinutes = 60\<rparr>"

definition bothHitDay :: "candle list" where
  "bothHitDay =
     [\<lparr>c_date = ''2024-01-02T14:30:00.000Z'', c_open = 100.5, c_high = 102,
       c_low = 100, c_close = 101, c_volume = 1000\<rparr>,
      \<lparr>c_date = ''2024-01-02T14:31:00.000Z'', c_open = 101, c_high = 101.5,
       c_low = 100.5, c_close = 101.2, c_volume = 1000\<rparr>,
      \<lparr>c_date = ''2024-01-02T14:32:00.000Z'', c_open = 101.2, c_high = 102.5,
       c_low = 101.1, c_close = 102.3, c_volume = 1500\<rparr>,
      \<lparr>c_date = ''2024-01-02T14:33:00.000Z'', c_open = 102.3, c_high = 107,
       c_low = 99.5, c_close = 103, c_volume = 2000\<rparr>,
      \<lparr>c_date = ''2024-01-02T14:34:00.000Z'', c_open = 103, c_high = 103.5,
       c_low = 102.5, c_close = 103.2, c_volume = 900\<rparr>]"

text \<open>The loop state of \<^verbatim>\<open>backtestDay\<close> on that day once the third candle has been read.\<close>

definition openState :: bt_state where
  "openState = \<lparr>inPosition = True, entryPrice = Fin 102.01, stopPrice = Fin 100,
     targetPrice = Fin 106.01, bt_side = LONG, entryTime = ''2024-01-02T14:32:00.000Z''\<rparr>"

text \<open>A quiet bar: it reaches neither the stop at 100 nor the target at 106.01.\<close>

definition quietBar :: candle where
  "quietBar = \<lparr>c_date = ''2024-01-02T15:34:00.000Z'', c_open = 103, c_high = 103.5,
     c_low = 102.5, c_close = 103.2, c_volume = 900\<rparr>"

text \<open>Three ledgers of the gap-fill backtest: winners only, losers only, and both.\<close>

definition gapTrade :: "real \<Rightarrow> gap_trade" where
  "gapTrade p =
     \<lparr>gt_symbol = ''XYZ'', gt_entryDate = ''2024-01-02'', gt_exitDate = ''2024-01-03'',
      gt_entryPrice = 100, gt_exitPrice = 100 + p, gt_gapPercent = -3, gt_pnlPercent = p,
      gt_won = (p > 0), gt_exitReason = (if p > 0 then gap_filled else stop_loss)\<rparr>"

definition winnersOnly :: "gap_trade list" where
  "winnersOnly = [gapTrade 2, gapTrade 1.5]"

definition losersOnly :: "gap_trade list" where
  "losersOnly = [gapTrade (-3), gapTrade (-1)]"

definition mixedLedger :: "gap_trade list" where
  "mixedLedger = [gapTrade 2, gapTrade (-3), gapTrade 4]"


text \<open>The state of \<^verbatim>\<open>simulateTrade\<close> on scenario 1 once its second candle has been read.\<close>

definition scaledState :: sim_state where
  "scaledState = \<lparr>scaledOut = True, stop = 102, pnlAcc = 1, exitPrice = 0, reason = ''''\<rparr>"

text \<open>A candle that falls below the range low 100 of \<open>bothHitDay\<close> without rising above 102.\<close>

definition breakdownBar :: candle where
  "breakdownBar = \<lparr>c_date = ''2024-01-02T14:32:00.000Z'', c_open = 100.4, c_high = 100.6,
     c_low = 99.2, c_close = 99.5, c_volume = 1500\<rparr>"

text \<open>A state file as the live bot saves it on 2 January 2024.\<close>

definition storedState :: BotState where
  "storedState = \<lparr>bs_date = ''2024-01-02'', bs_positions = [longPosition],
     bs_ranges = Map.empty, bs_executed_trades = 1\<rparr>"

text \<open>
  A session with the opening range of \<open>gapSession\<close>, then a candle of volume zero that
  falls below the range low, then a candle of 1.3 times the average volume that rises above
  the range high.
\<close>

definition zeroVolSession :: "candle list" where
  "zeroVolSession =
     take 6 gapSession @
     [\<lparr>c_date = ''2024-01-02T15:00:00.000Z'', c_open = 101, c_high = 101.5,
       c_low = 99.5, c_close = 100.2, c_volume = 0\<rparr>,
      \<lparr>c_date = ''2024-01-02T15:05:00.000Z'', c_open = 100.2, c_high = 102.5,
       c_low = 100.1, c_close = 102.3, c_volume = 1300\<rparr>]"

text \<open>
  For \<^verbatim>\<open>backtestDay\<close> with the range of \<open>bothHitDay\<close> (high 102, low 100): a bar that
  breaches the range on both sides, a bar that reaches the stop, a day on which the
  outside bar is the third candle, and a day with a gap in the data: the candle after the
  entry at 14:32 is the one of 15:34, followed by the stop bar at 15:35.
\<close>

definition outsideBar :: candle where
  "outsideBar = \<lparr>c_date = ''2024-01-02T14:32:00.000Z'', c_open = 100.4, c_high = 102.5,
     c_low = 99.2, c_close = 101.5, c_volume = 1500\<rparr>"

definition stopBar :: candle where
  "stopBar = \<lparr>c_date = ''2024-01-02T15:35:00.000Z'', c_open = 103.2, c_high = 103.3,
     c_low = 99.5, c_close = 99.8, c_volume = 2500\<rparr>"

definition outsideDay :: "candle list" where
  "outsideDay = take 2 bothHitDay @ [outsideBar, quietBar]"

definition gapDay :: "candle list" where
  "gapDay = take 3 bothHitDay @ [quietBar, stopBar]"

text \<open>A day whose two opening candles have the same high and low: a range of height zero.\<close>

definition flatDay :: "candle list" where
  "flatDay =
     [\<lparr>c_date = ''2024-01-02T14:30:00.000Z'', c_open = 101, c_high = 101,
       c_low = 101, c_close = 101, c_volume = 0\<rparr>,
      \<lparr>c_date = ''2024-01-02T14:31:00.000Z'', c_open = 101, c_high = 101,
       c_low = 101, c_close = 101, c_volume = 0\<rparr>,
      \<lparr>c_date = ''2024-01-02T14:32:00.000Z'', c_open = 101, c_high = 102,
       c_low = 101, c_close = 102, c_volume = 100\<rparr>]"

text \<open>
  The candles of \<open>gapSession\<close> squeezed between 100 and 100.3, a range of 0.3 percent; and
  a day on which the only candle after the opening range stays below the range high.
\<close>

definition tightSession :: "candle list" where
  "tightSession = map (\<lambda>c. c\<lparr>c_high := 100.3, c_low := 100\<rparr>) gapSession"

definition noBreakoutDay :: "candle list" where
  "noBreakoutDay = take 2 bothHitDay @ [breakdownBar]"

section \<open>The exit order within one candle\<close>

lemma btLoop_in:
  "inPosition st \<Longrightarrow>
   btLoop symbol params rh rl rhh i (c # cs) st =
     (if js_le (Fin (c_low c)) (stopPrice st) then
        Inl (exitTrade symbol st (c_date c) (stopPrice st) ''STOP_LOSS'')
      else if js_ge (Fin (c_high c)) (targetPrice st) then
        Inl (exitTrade symbol st (c_date c) (targetPrice st) ''TARGET_HIT'')
      else if real i \<ge> real (rangeMinutes params) + maxHoldMinutes params then
        Inl (exitTrade symbol st (c_date c) (Fin (c_close c)) ''TIME_EXIT'')
      else btLoop symbol params rh rl rhh (Suc i) cs st)"
  by simp

lemma btLoop_out:
  "\<not> inPosition st \<Longrightarrow>
   btLoop symbol params rh rl rhh i (c # cs) st =
     (if js_gt (Fin (c_high c)) rh then
        btLoop symbol params rh rl rhh (Suc i) cs
          (st\<lparr>bt_side := LONG, entryPrice := js_add rh (Fin 0.01), entryTime := c_date c,
               stopPrice := rl,
               targetPrice := js_add (js_add rh (Fin 0.01)) (js_mul rhh (Fin (profitTargetR params))),
               inPosition := True\<rparr>)
      else btLoop symbol params rh rl rhh (Suc i) cs st)"
  by (simp add: Let_def)




section \<open>The break-even stop\<close>

lemma scaleOut_keeps: "scaledOut st \<Longrightarrow> scaleOut sg c st = st"
  by (simp add: scaleOut_def)

lemma simLoop_keeps:
  "scaledOut st \<Longrightarrow> scaledOut (simLoop sg cs st) \<and> stop (simLoop sg cs st) = stop st"
proof (induction cs arbitrary: st)
  case Nil
  then show ?case by simp
next
  case (Cons c cs)
  then show ?case by (simp add: scaleOut_keeps Let_def)
qed

lemma simLoop_breakeven:
  "scaledOut st \<longrightarrow> stop st = sig_entryPrice sg \<Longrightarrow>
   scaledOut (simLoop sg cs st) \<longrightarrow> stop (simLoop sg cs st) = sig_entryPrice sg"
proof (induction cs arbitrary: st)
  case Nil
  then show ?case by simp
next
  case (Cons c cs)
  have step: "scaledOut (scaleOut sg c st) \<longrightarrow> stop (scaleOut sg c st) = sig_entryPrice sg"
    using Cons.prems by (simp add: scaleOut_def)
  show ?case using step Cons.IH[OF step] by (simp add: Let_def)
qed

lemma checkPosition_keeps:
  "pos_scaledOut pos \<Longrightarrow>
   pos_scaledOut (checkPosition pos f) \<and> pos_stopLoss (checkPosition pos f) = pos_stopLoss pos
   \<and> pos_entryPrice (checkPosition pos f) = pos_entryPrice pos"
  by (simp add: checkPosition_def Let_def split: option.splits)

lemma checkPosition_entry: "pos_entryPrice (checkPosition pos f) = pos_entryPrice pos"
  by (simp add: checkPosition_def Let_def split: option.splits)

lemma checkPosition_breakeven:
  "pos_scaledOut pos \<longrightarrow> pos_stopLoss pos = e \<Longrightarrow> pos_entryPrice pos = e \<Longrightarrow>
   pos_scaledOut (checkPosition pos f) \<longrightarrow> pos_stopLoss (checkPosition pos f) = e"
  by (simp add: checkPosition_def Let_def split: option.splits)

lemma checkPositions_keeps:
  "pos_scaledOut pos \<Longrightarrow>
   pos_scaledOut (checkPositions pos fs) \<and> pos_stopLoss (checkPositions pos fs) = pos_stopLoss pos
   \<and> pos_entryPrice (checkPositions pos fs) = pos_entryPrice pos"
proof (induction fs arbitrary: pos)
  case Nil
  then show ?case by simp
next
  case (Cons f fs)
  from checkPosition_keeps[OF Cons.prems, of f] Cons.IH[of "checkPosition pos f"]
  show ?case by simp
qed

lemma checkPositions_breakeven:
  "pos_scaledOut pos \<longrightarrow> pos_stopLoss pos = e \<Longrightarrow> pos_entryPrice pos = e \<Longrightarrow>
   pos_scaledOut (checkPositions pos fs) \<longrightarrow> pos_stopLoss (checkPositions pos fs) = e"
proof (induction fs arbitrary: pos)
  case Nil
  then show ?case by simp
next
  case (Cons f fs)
  have a: "pos_scaledOut (checkPosition pos f) \<longrightarrow> pos_stopLoss (checkPosition pos f) = e"
    using Cons.prems by (rule checkPosition_breakeven)
  have b: "pos_entryPrice (checkPosition pos f) = e"
    using Cons.prems(2) by (simp add: checkPosition_entry)
  from Cons.IH[OF a b] show ?case by simp
qed

text \<open>
  Claim C2. In \<^verbatim>\<open>simulateTrade\<close>, whatever candles have been read from the start, a
  position that is scaled out has its stop at the entry price; and from a scaled-out state
  no further candle changes the stop. In the live bot, a position that was not scaled out
  and is scaled out after any number of \<^verbatim>\<open>checkPosition\<close> calls has its stop at the entry
  price; and once it is scaled out, no later call changes the stop or the entry price.
\<close>

theorem breakeven_invariant:
  "(scaledOut (simLoop sg cs (sim_init sg)) \<longrightarrow>
      stop (simLoop sg cs (sim_init sg)) = sig_entryPrice sg)
 \<and> (scaledOut st \<longrightarrow> scaledOut (simLoop sg cs st) \<and> stop (simLoop sg cs st) = stop st)
 \<and> (\<not> pos_scaledOut pos \<and> pos_scaledOut (checkPositions pos fs) \<longrightarrow>
      pos_stopLoss (checkPositions pos fs) = pos_entryPrice pos)
 \<and> (pos_scaledOut pos \<longrightarrow>
      pos_scaledOut (checkPositions pos fs)
      \<and> pos_stopLoss (checkPositions pos fs) = pos_stopLoss pos
      \<and> pos_entryPrice (checkPositions pos fs) = pos_entryPrice pos)"
proof -
  have 1: "scaledOut (simLoop sg cs (sim_init sg)) \<longrightarrow>
      stop (simLoop sg cs (sim_init sg)) = sig_entryPrice sg"
    by (rule simLoop_breakeven) (simp add: sim_init_def)
  have 3: "\<not> pos_scaledOut pos \<and> pos_scaledOut (checkPositions pos fs) \<longrightarrow>
      pos_stopLoss (checkPositions pos fs) = pos_entryPrice pos"
    using checkPositions_breakeven[of pos "pos_entryPrice pos" fs] by simp
  show ?thesis
    using 1 3 simLoop_keeps[of st sg cs] checkPositions_keeps[of pos fs] by blast
qed

theorem breakeven_invariant_witness:
  "scaledOut (simLoop scenario1 (sig_candles scenario1) (sim_init scenario1))
 \<and> stop (simLoop scenario1 (sig_candles scenario1) (sim_init scenario1)) = 102
 \<and> scaledOut scaledState
 \<and> stop (simLoop scenario1 (drop 2 (sig_candles scenario1)) scaledState) = 102
 \<and> \<not> pos_scaledOut longPosition
 \<and> pos_scaledOut (checkPositions longPosition [Some (lastClose 104.5), Some (lastClose 103)])
 \<and> pos_stopLoss (checkPositions longPosition [Some (lastClose 104.5), Some (lastClose 103)]) = 102
 \<and> pos_scaledOut (checkPosition longPosition (Some (lastClose 104.5)))
 \<and> pos_stopLoss (checkPositions (checkPosition longPosition (Some (lastClose 104.5)))
      [Some (lastClose 103), None, Some (lastClose 101)]) = 102"
  using breakeven_invariant [where sg = scenario1 and cs = "sig_candles scenario1"
      and st = "simLoop scenario1 (take 2 (sig_candles scenario1)) (sim_init scenario1)"
      and pos = longPosition and fs = "[Some (lastClose 104.5), Some (lastClose 103)]"]
    breakeven_invariant [where sg = scenario1 and cs = "drop 2 (sig_candles scenario1)"
      and st = scaledState and pos = "checkPosition longPosition (Some (lastClose 104.5))"
      and fs = "[Some (lastClose 103), None, Some (lastClose 101)]"]
  by (simp add: scenario1_def scaledState_def sim_init_def scaleOut_def stopHit_def
      longPosition_def lastClose_def checkPosition_def Let_def)

section \<open>The profit and loss of a simulated trade\<close>





section \<open>The first trigger of a session\<close>

lemma scanTrigger_None:
  "scanTrigger rh rl av i cs = None \<longleftrightarrow> (\<forall>c\<in>set cs. \<not> triggers rh rl av c)"
  by (induction cs arbitrary: i) (auto simp: triggers_def Let_def)

lemma scanTrigger_Some:
  "scanTrigger rh rl av i cs = Some (k, sd, rv) \<Longrightarrow>
   \<exists>pre c post. cs = pre @ c # post \<and> k = i + length pre
     \<and> (\<forall>x\<in>set pre. \<not> triggers rh rl av x) \<and> triggers rh rl av c
     \<and> sd = (if c_high c > rh then LONG else SHORT)
     \<and> rv = (if av > 0 then c_volume c / av else 0)"
proof (induction cs arbitrary: i)
  case Nil
  then show ?case by simp
next
  case (Cons a cs)
  show ?case
  proof (cases "triggers rh rl av a")
    case True
    with Cons.prems have "k = i \<and> sd = (if c_high a > rh then LONG else SHORT)
        \<and> rv = (if av > 0 then c_volume a / av else 0)"
      by (auto simp: triggers_def Let_def split: if_splits)
    with True show ?thesis by (intro exI[of _ "[]"] exI[of _ a] exI[of _ cs]) simp
  next
    case False
    with Cons.prems have "scanTrigger rh rl av (Suc i) cs = Some (k, sd, rv)"
      by (auto simp: triggers_def Let_def split: if_splits)
    from Cons.IH[OF this] obtain pre c post where
      h: "cs = pre @ c # post" "k = Suc i + length pre" "\<forall>x\<in>set pre. \<not> triggers rh rl av x"
         "triggers rh rl av c" "sd = (if c_high c > rh then LONG else SHORT)"
         "rv = (if av > 0 then c_volume c / av else 0)"
      by blast
    with False show ?thesis
      by (intro exI[of _ "a # pre"] exI[of _ c] exI[of _ post]) simp
  qed
qed

lemma scanTrigger_index:
  assumes "scanTrigger rh rl av n (drop n candles) = Some (k, sd, rv)"
  shows "n \<le> k \<and> k < length candles \<and> triggers rh rl av (candles ! k)
       \<and> (\<forall>j. n \<le> j \<and> j < k \<longrightarrow> \<not> triggers rh rl av (candles ! j))
       \<and> sd = (if c_high (candles ! k) > rh then LONG else SHORT)
       \<and> rv = (if av > 0 then c_volume (candles ! k) / av else 0)"
proof -
  from scanTrigger_Some[OF assms] obtain pre c post where
    h: "drop n candles = pre @ c # post" "k = n + length pre" "\<forall>x\<in>set pre. \<not> triggers rh rl av x"
       "triggers rh rl av c" "sd = (if c_high c > rh then LONG else SHORT)"
       "rv = (if av > 0 then c_volume c / av else 0)"
    by blast
  have len: "length candles - n = length pre + Suc (length post)"
    using h(1) by (metis length_drop length_append length_Cons)
  then have klt: "k < length candles" using h(2) by simp
  have nle: "n \<le> length candles" using len by simp
  have nth: "\<And>j. candles ! (n + j) = (pre @ c # post) ! j"
    using h(1) nle by (metis nth_drop)
  have ck: "candles ! k = c"
    using nth[of "length pre"] h(2) by simp
  have before: "\<forall>j. n \<le> j \<and> j < k \<longrightarrow> \<not> triggers rh rl av (candles ! j)"
  proof (intro allI impI)
    fix j assume a: "n \<le> j \<and> j < k"
    then have jl: "j - n < length pre" using h(2) by auto
    have "candles ! (n + (j - n)) = (pre @ c # post) ! (j - n)"
      by (rule nth)
    then have "candles ! j = pre ! (j - n)" using a jl by (simp add: nth_append)
    then show "\<not> triggers rh rl av (candles ! j)" using h(3) jl by simp
  qed
  show ?thesis using h(2) klt ck before h(4,5,6) by simp
qed

lemma checkSignal_Some:
  assumes "checkSignal symbol candles prevClose = Some sg"
  shows "7 \<le> length candles
    \<and> (\<exists>k sd rv.
         scanTrigger (Max (set (map c_high (take 6 candles)))) (Min (set (map c_low (take 6 candles))))
            (sum_list (map c_volume (take 6 candles)) / 6) 6 (drop 6 candles) = Some (k, sd, rv)
         \<and> sig_side sg = sd \<and> sig_relVol sg = rv \<and> sig_candles sg = drop k candles
         \<and> sig_entryPrice sg = (if sd = LONG then Max (set (map c_high (take 6 candles)))
                                 else Min (set (map c_low (take 6 candles))))
         \<and> sig_stop sg = (if sd = LONG then Min (set (map c_low (take 6 candles)))
                           else Max (set (map c_high (take 6 candles))))
         \<and> sig_rangeHeight sg =
             Max (set (map c_high (take 6 candles))) - Min (set (map c_low (take 6 candles))))"
  using assms
  by (auto simp: checkSignal_def Let_def simp del: js_div.simps js_lt.simps js_abs.simps
      split: if_splits option.splits)

lemma checkSignal_gapSession: "checkSignal ''XYZ'' gapSession 99 = Some scenario1"
  by (simp add: checkSignal_def gapSession_def scenario1_def js_gt_def Let_def)

lemma scanTrigger_first:
  assumes "\<forall>x\<in>set pre. \<not> triggers rh rl av x" and "triggers rh rl av c"
  shows "scanTrigger rh rl av i (pre @ c # post) =
           Some (i + length pre, if c_high c > rh then LONG else SHORT,
                 if av > 0 then c_volume c / av else 0)"
  using assms
proof (induction pre arbitrary: i)
  case Nil
  then show ?case by (auto simp: triggers_def Let_def)
next
  case (Cons a pre)
  from Cons.prems have na: "\<not> triggers rh rl av a"
    and rest: "\<forall>x\<in>set pre. \<not> triggers rh rl av x" by simp_all
  from na have "scanTrigger rh rl av i ((a # pre) @ c # post) =
      scanTrigger rh rl av (Suc i) (pre @ c # post)"
    by (auto simp: triggers_def Let_def)
  with Cons.IH[OF rest Cons.prems(2), of "Suc i"] show ?case by simp
qed

lemma scanTrigger_first_index:
  assumes "n \<le> k" and "k < length candles" and "triggers rh rl av (candles ! k)"
    and "\<forall>j. n \<le> j \<and> j < k \<longrightarrow> \<not> triggers rh rl av (candles ! j)"
  shows "scanTrigger rh rl av n (drop n candles) =
           Some (k, if c_high (candles ! k) > rh then LONG else SHORT,
                 if av > 0 then c_volume (candles ! k) / av else 0)"
proof -
  let ?xs = "drop n candles"
  have kl: "k - n < length ?xs" using assms(1,2) by simp
  have split: "?xs = take (k - n) ?xs @ ?xs ! (k - n) # drop (Suc (k - n)) ?xs"
    using kl by (rule id_take_nth_drop)
  have mid: "?xs ! (k - n) = candles ! k" using assms(1,2) by simp
  have pre: "\<forall>x\<in>set (take (k - n) ?xs). \<not> triggers rh rl av x"
  proof
    fix x assume "x \<in> set (take (k - n) ?xs)"
    then obtain j where j: "j < k - n" "x = take (k - n) ?xs ! j"
      by (auto simp: in_set_conv_nth)
    then have "x = candles ! (n + j)" using assms(2) by simp
    moreover have "n \<le> n + j \<and> n + j < k" using j(1) by simp
    ultimately show "\<not> triggers rh rl av x" using assms(4) by blast
  qed
  have len: "length (take (k - n) ?xs) = k - n" using kl by simp
  have "scanTrigger rh rl av n (take (k - n) ?xs @ ?xs ! (k - n) # drop (Suc (k - n)) ?xs) =
      Some (n + length (take (k - n) ?xs),
            if c_high (?xs ! (k - n)) > rh then LONG else SHORT,
            if av > 0 then c_volume (?xs ! (k - n)) / av else 0)"
    using pre assms(3) mid by (intro scanTrigger_first) simp_all
  then show ?thesis using split len mid assms(1) by simp
qed

lemma checkSignal_fires:
  assumes "7 \<le> length candles"
    and "\<not> c_close (candles ! 0) < 5"
    and "\<not> js_lt (js_abs (js_div (Fin (c_open (candles ! 0) - prevClose)) (Fin prevClose)))
              (Fin 0.002)"
    and "\<not> js_lt (js_div (Fin (Max (set (map c_high (take 6 candles)))
                                 - Min (set (map c_low (take 6 candles)))))
                         (Fin (Min (set (map c_low (take 6 candles)))))) (Fin 0.005)"
    and "\<not> js_gt (js_div (Fin (Max (set (map c_high (take 6 candles)))
                                 - Min (set (map c_low (take 6 candles)))))
                         (Fin (Min (set (map c_low (take 6 candles)))))) (Fin 0.12)"
    and "6 \<le> k" and "k < length candles"
    and "triggers (Max (set (map c_high (take 6 candles)))) (Min (set (map c_low (take 6 candles))))
           (sum_list (map c_volume (take 6 candles)) / 6) (candles ! k)"
    and "\<forall>j. 6 \<le> j \<and> j < k \<longrightarrow>
           \<not> triggers (Max (set (map c_high (take 6 candles)))) (Min (set (map c_low (take 6 candles))))
               (sum_list (map c_volume (take 6 candles)) / 6) (candles ! j)"
  shows "checkSignal symbol candles prevClose =
     Some \<lparr>sig_symbol = symbol,
           sig_side = (if c_high (candles ! k) > Max (set (map c_high (take 6 candles)))
                       then LONG else SHORT),
           sig_entryPrice = (if c_high (candles ! k) > Max (set (map c_high (take 6 candles)))
                             then Max (set (map c_high (take 6 candles)))
                             else Min (set (map c_low (take 6 candles)))),
           sig_stop = (if c_high (candles ! k) > Max (set (map c_high (take 6 candles)))
                       then Min (set (map c_low (take 6 candles)))
                       else Max (set (map c_high (take 6 candles)))),
           sig_target1 = (if c_high (candles ! k) > Max (set (map c_high (take 6 candles)))
                          then Max (set (map c_high (take 6 candles)))
                               + (Max (set (map c_high (take 6 candles)))
                                  - Min (set (map c_low (take 6 candles))))
                          else Min (set (map c_low (take 6 candles)))
                               - (Max (set (map c_high (take 6 candles)))
                                  - Min (set (map c_low (take 6 candles))))),
           sig_rangeHeight = Max (set (map c_high (take 6 candles)))
                             - Min (set (map c_low (take 6 candles))),
           sig_candles = drop k candles,
           sig_relVol = (if sum_list (map c_volume (take 6 candles)) / 6 > 0
                         then c_volume (candles ! k) / (sum_list (map c_volume (take 6 candles)) / 6)
                         else 0)\<rparr>"
proof -
  note sc = scanTrigger_first_index[OF assms(6,7,8,9)]
  show ?thesis
    unfolding checkSignal_def Let_def sc using assms(1-5)
    by (simp del: js_div.simps js_lt.simps js_abs.simps)
qed

lemma checkSignal_quiet:
  assumes "\<forall>j. 6 \<le> j \<and> j < length candles \<longrightarrow>
           \<not> triggers (Max (set (map c_high (take 6 candles)))) (Min (set (map c_low (take 6 candles))))
               (sum_list (map c_volume (take 6 candles)) / 6) (candles ! j)"
  shows "checkSignal symbol candles prevClose = None"
proof -
  have "\<forall>c\<in>set (drop 6 candles).
          \<not> triggers (Max (set (map c_high (take 6 candles)))) (Min (set (map c_low (take 6 candles))))
               (sum_list (map c_volume (take 6 candles)) / 6) c"
  proof
    fix c assume "c \<in> set (drop 6 candles)"
    then obtain j where "j < length candles - 6" "c = candles ! (6 + j)"
      by (auto simp: in_set_conv_nth)
    then show "\<not> triggers (Max (set (map c_high (take 6 candles)))) (Min (set (map c_low (take 6 candles))))
               (sum_list (map c_volume (take 6 candles)) / 6) c"
      using assms by simp
  qed
  then have sc: "scanTrigger (Max (set (map c_high (take 6 candles)))) (Min (set (map c_low (take 6 candles))))
               (sum_list (map c_volume (take 6 candles)) / 6) 6 (drop 6 candles) = None"
    by (simp only: scanTrigger_None)
  show ?thesis
    unfolding checkSignal_def Let_def sc
    by (simp del: js_div.simps js_lt.simps js_abs.simps)
qed

text \<open>
  Claim C4, as stated, fails on a candle of volume zero. The claim says that the signal
  is at the first candle that passes the volume gate and breaches the range. In
  \<open>zeroVolSession\<close> (range 100 to 102, average volume 1000) the seventh candle has volume
  zero, which is below the gate for the multiple 0.8 of the code as for the 1.2 of the
  specification, and falls below the range low; the eighth candle passes the gate and rises
  above the range high. \<^verbatim>\<open>checkSignal\<close> returns the SHORT signal of the seventh candle,
  with relative volume 0: its filter skips a candle only when the volume is positive.
\<close>

theorem zero_volume_trigger_counterexample:
  "\<not> specVolumeGate 0.8 1000 (zeroVolSession ! 6)
 \<and> \<not> specVolumeGate 1.2 1000 (zeroVolSession ! 6)
 \<and> specVolumeGate 1.2 1000 (zeroVolSession ! 7)
 \<and> c_high (zeroVolSession ! 7) > 102
 \<and> checkSignal ''XYZ'' zeroVolSession 99 =
     Some \<lparr>sig_symbol = ''XYZ'', sig_side = SHORT, sig_entryPrice = 100, sig_stop = 102,
           sig_target1 = 98, sig_rangeHeight = 2, sig_candles = drop 6 zeroVolSession,
           sig_relVol = 0\<rparr>"
  by (simp add: specVolumeGate_def zeroVolSession_def gapSession_def scenario1_def
      checkSignal_def js_gt_def Let_def)

text \<open>
  Claim C4, amended: the volume gate is the filter of the code, which skips a candle only
  when its volume is positive and below 0.8 times the opening average (\<open>triggers\<close>), so
  that a candle of volume zero passes. With \<open>hi\<close>, \<open>lo\<close> and \<open>avg\<close> the high, the low and
  the average volume of the six opening candles: a signal that \<^verbatim>\<open>checkSignal\<close> returns is
  at an index \<open>k\<close> after the opening candles whose candle triggers, while no candle between
  the opening range and \<open>k\<close> does; its side is LONG when the high of candle \<open>k\<close> exceeds
  \<open>hi\<close> (also when the low breaches too) and SHORT otherwise; and the candles handed on
  start at \<open>k\<close>. Conversely, in a session of at least seven candles that passes the price,
  gap and range filters, the first candle that triggers gives that signal; and when no
  candle after the opening range triggers there is no signal. The result is a function of
  the session, one signal or none.
\<close>

theorem first_trigger_only:
  fixes candles :: "candle list"
  defines "hi \<equiv> Max (set (map c_high (take 6 candles)))"
    and "lo \<equiv> Min (set (map c_low (take 6 candles)))"
    and "avg \<equiv> sum_list (map c_volume (take 6 candles)) / 6"
  shows "(checkSignal symbol candles prevClose = Some sg \<longrightarrow>
      (\<exists>k. 6 \<le> k \<and> k < length candles
         \<and> triggers hi lo avg (candles ! k)
         \<and> (\<forall>j. 6 \<le> j \<and> j < k \<longrightarrow> \<not> triggers hi lo avg (candles ! j))
         \<and> sig_side sg = (if c_high (candles ! k) > hi then LONG else SHORT)
         \<and> sig_candles sg = drop k candles))
   \<and> (7 \<le> length candles
       \<and> \<not> c_close (candles ! 0) < 5
       \<and> \<not> js_lt (js_abs (js_div (Fin (c_open (candles ! 0) - prevClose)) (Fin prevClose)))
                (Fin 0.002)
       \<and> \<not> js_lt (js_div (Fin (hi - lo)) (Fin lo)) (Fin 0.005)
       \<and> \<not> js_gt (js_div (Fin (hi - lo)) (Fin lo)) (Fin 0.12)
       \<and> 6 \<le> m \<and> m < length candles
       \<and> triggers hi lo avg (candles ! m)
       \<and> (\<forall>j. 6 \<le> j \<and> j < m \<longrightarrow> \<not> triggers hi lo avg (candles ! j)) \<longrightarrow>
      (\<exists>s. checkSignal symbol candles prevClose = Some s
         \<and> sig_side s = (if c_high (candles ! m) > hi then LONG else SHORT)
         \<and> sig_candles s = drop m candles))
   \<and> ((\<forall>j. 6 \<le> j \<and> j < length candles \<longrightarrow> \<not> triggers hi lo avg (candles ! j)) \<longrightarrow>
      checkSignal symbol candles prevClose = None)"
proof -
  have a: "checkSignal symbol candles prevClose = Some sg \<longrightarrow>
      (\<exists>k. 6 \<le> k \<and> k < length candles
         \<and> triggers hi lo avg (candles ! k)
         \<and> (\<forall>j. 6 \<le> j \<and> j < k \<longrightarrow> \<not> triggers hi lo avg (candles ! j))
         \<and> sig_side sg = (if c_high (candles ! k) > hi then LONG else SHORT)
         \<and> sig_candles sg = drop k candles)"
  proof
    assume s: "checkSignal symbol candles prevClose = Some sg"
    from checkSignal_Some[OF s] obtain k sd rv where
      sc: "scanTrigger hi lo avg 6 (drop 6 candles) = Some (k, sd, rv)"
      and f: "sig_side sg = sd" "sig_candles sg = drop k candles"
      unfolding hi_def lo_def avg_def by blast
    from scanTrigger_index[OF sc] f
    show "\<exists>k. 6 \<le> k \<and> k < length candles
         \<and> triggers hi lo avg (candles ! k)
         \<and> (\<forall>j. 6 \<le> j \<and> j < k \<longrightarrow> \<not> triggers hi lo avg (candles ! j))
         \<and> sig_side sg = (if c_high (candles ! k) > hi then LONG else SHORT)
         \<and> sig_candles sg = drop k candles"
      by (intro exI[of _ k]) simp
  qed
  have b: "7 \<le> length candles
       \<and> \<not> c_close (candles ! 0) < 5
       \<and> \<not> js_lt (js_abs (js_div (Fin (c_open (candles ! 0) - prevClose)) (Fin prevClose)))
                (Fin 0.002)
       \<and> \<not> js_lt (js_div (Fin (hi - lo)) (Fin lo)) (Fin 0.005)
       \<and> \<not> js_gt (js_div (Fin (hi - lo)) (Fin lo)) (Fin 0.12)
       \<and> 6 \<le> m \<and> m < length candles
       \<and> triggers hi lo avg (candles ! m)
       \<and> (\<forall>j. 6 \<le> j \<and> j < m \<longrightarrow> \<not> triggers hi lo avg (candles ! j)) \<longrightarrow>
      (\<exists>s. checkSignal symbol candles prevClose = Some s
         \<and> sig_side s = (if c_high (candles ! m) > hi then LONG else SHORT)
         \<and> sig_candles s = drop m candles)"
  proof
    assume h: "7 \<le> length candles
       \<and> \<not> c_close (candles ! 0) < 5
       \<and> \<not> js_lt (js_abs (js_div (Fin (c_open (candles ! 0) - prevClose)) (Fin prevClose)))
                (Fin 0.002)
       \<and> \<not> js_lt (js_div (Fin (hi - lo)) (Fin lo)) (Fin 0.005)
       \<and> \<not> js_gt (js_div (Fin (hi - lo)) (Fin lo)) (Fin 0.12)
       \<and> 6 \<le> m \<and> m < length candles
       \<and> triggers hi lo avg (candles ! m)
       \<and> (\<forall>j. 6 \<le> j \<and> j < m \<longrightarrow> \<not> triggers hi lo avg (candles ! j))"
    then have "checkSignal symbol candles prevClose =
       Some \<lparr>sig_symbol = symbol,
           sig_side = (if c_high (candles ! m) > hi then LONG else SHORT),
           sig_entryPrice = (if c_high (candles ! m) > hi then hi else lo),
           sig_stop = (if c_high (candles ! m) > hi then lo else hi),
           sig_target1 = (if c_high (candles ! m) > hi then hi + (hi - lo) else lo - (hi - lo)),
           sig_rangeHeight = hi - lo,
           sig_candles = drop m candles,
           sig_relVol = (if avg > 0 then c_volume (candles ! m) / avg else 0)\<rparr>"
      unfolding hi_def lo_def avg_def by (intro checkSignal_fires) simp_all
    then show "\<exists>s. checkSignal symbol candles prevClose = Some s
         \<and> sig_side s = (if c_high (candles ! m) > hi then LONG else SHORT)
         \<and> sig_candles s = drop m candles"
      by simp
  qed
  have c: "(\<forall>j. 6 \<le> j \<and> j < length candles \<longrightarrow> \<not> triggers hi lo avg (candles ! j)) \<longrightarrow>
      checkSignal symbol candles prevClose = None"
    unfolding hi_def lo_def avg_def using checkSignal_quiet by blast
  from a b c show ?thesis by (intro conjI)
qed

theorem first_trigger_only_witness:
  "checkSignal ''XYZ'' gapSession 99 = Some scenario1
 \<and> sig_candles scenario1 = drop 7 gapSession
 \<and> sig_side scenario1 = LONG
 \<and> triggers 102 100 1000 (gapSession ! 7)
 \<and> \<not> triggers 102 100 1000 (gapSession ! 6)
 \<and> triggers 102 100 1000 (zeroVolSession ! 6)
 \<and> map_option sig_side (checkSignal ''XYZ'' zeroVolSession 99) = Some SHORT
 \<and> map_option sig_candles (checkSignal ''XYZ'' zeroVolSession 99) = Some (drop 6 zeroVolSession)
 \<and> \<not> triggers 102 100 1000 (take 7 gapSession ! 6)
 \<and> checkSignal ''XYZ'' (take 7 gapSession) 99 = None"
proof -
  have rng: "Max (set (map c_high (take 6 gapSession))) = 102"
    "Min (set (map c_low (take 6 gapSession))) = 100"
    "sum_list (map c_volume (take 6 gapSession)) / 6 = 1000"
    by (simp_all add: gapSession_def)
  have t6: "take 6 zeroVolSession = take 6 gapSession"
    "take 6 (take 7 gapSession) = take 6 gapSession"
    by (simp_all add: zeroVolSession_def gapSession_def)
  have trig: "triggers 102 100 1000 (gapSession ! 7)" "\<not> triggers 102 100 1000 (gapSession ! 6)"
    "triggers 102 100 1000 (zeroVolSession ! 6)" "\<not> triggers 102 100 1000 (take 7 gapSession ! 6)"
    by (simp_all add: gapSession_def scenario1_def zeroVolSession_def triggers_def)
  have high: "c_high (gapSession ! 7) > 102" "\<not> c_high (zeroVolSession ! 6) > 102"
    by (simp_all add: gapSession_def scenario1_def zeroVolSession_def)
  have pre: "7 \<le> length gapSession" "\<not> c_close (gapSession ! 0) < 5"
    "\<not> js_lt (js_abs (js_div (Fin (c_open (gapSession ! 0) - 99)) (Fin 99))) (Fin 0.002)"
    "\<not> js_lt (js_div (Fin (102 - 100)) (Fin 100)) (Fin 0.005)"
    "\<not> js_gt (js_div (Fin (102 - 100)) (Fin 100)) (Fin 0.12)"
    "(6 :: nat) \<le> 7" "7 < length gapSession"
    by (simp_all add: gapSession_def scenario1_def js_gt_def)
  have preZ: "7 \<le> length zeroVolSession" "\<not> c_close (zeroVolSession ! 0) < 5"
    "\<not> js_lt (js_abs (js_div (Fin (c_open (zeroVolSession ! 0) - 99)) (Fin 99))) (Fin 0.002)"
    "(6 :: nat) \<le> 6" "6 < length zeroVolSession"
    by (simp_all add: zeroVolSession_def gapSession_def js_gt_def)
  have before: "\<forall>j. 6 \<le> j \<and> j < 7 \<longrightarrow> \<not> triggers 102 100 1000 (gapSession ! j)"
  proof (intro allI impI)
    fix j :: nat assume "6 \<le> j \<and> j < 7"
    then have "j = 6" by arith
    then show "\<not> triggers 102 100 1000 (gapSession ! j)" using trig(2) by simp
  qed
  have none: "\<forall>j. 6 \<le> j \<and> j < length (take 7 gapSession) \<longrightarrow>
      \<not> triggers 102 100 1000 (take 7 gapSession ! j)"
  proof (intro allI impI)
    fix j :: nat assume "6 \<le> j \<and> j < length (take 7 gapSession)"
    then have "j = 6" by (simp add: gapSession_def)
    then show "\<not> triggers 102 100 1000 (take 7 gapSession ! j)" using trig(4) by simp
  qed
  note A = first_trigger_only [where candles = gapSession and symbol = "''XYZ''"
      and prevClose = 99 and sg = scenario1 and m = 7, unfolded rng]
  note B = first_trigger_only [where candles = zeroVolSession and symbol = "''XYZ''"
      and prevClose = 99 and m = 6, unfolded t6 rng]
  note C = first_trigger_only [where candles = "take 7 gapSession" and symbol = "''XYZ''"
      and prevClose = 99, unfolded t6 rng]
  from A pre trig(1) before obtain s where
    s: "checkSignal ''XYZ'' gapSession 99 = Some s"
      "sig_side s = (if c_high (gapSession ! 7) > 102 then LONG else SHORT)"
      "sig_candles s = drop 7 gapSession"
    by blast
  from s(1) have "s = scenario1" by (simp add: checkSignal_gapSession)
  with s high(1) have one: "checkSignal ''XYZ'' gapSession 99 = Some scenario1"
    "sig_side scenario1 = LONG" "sig_candles scenario1 = drop 7 gapSession"
    by simp_all
  from B preZ pre(4,5) trig(3) obtain z where
    z: "checkSignal ''XYZ'' zeroVolSession 99 = Some z"
      "sig_side z = (if c_high (zeroVolSession ! 6) > 102 then LONG else SHORT)"
      "sig_candles z = drop 6 zeroVolSession"
    by force
  with high(2) have two: "map_option sig_side (checkSignal ''XYZ'' zeroVolSession 99) = Some SHORT"
    "map_option sig_candles (checkSignal ''XYZ'' zeroVolSession 99) = Some (drop 6 zeroVolSession)"
    by simp_all
  from C none have three: "checkSignal ''XYZ'' (take 7 gapSession) 99 = None"
    by blast
  from one two three trig show ?thesis by simp
qed

section \<open>The opening range and the trades of backtestDay\<close>

text \<open>
  What the loop of \<^verbatim>\<open>backtestDay\<close> keeps: the side is LONG, and a position that is open
  was entered one cent above the range high with its stop at the range low.
\<close>

lemma btLoop_inv_Inl:
  assumes "bt_side st = LONG
      \<and> (inPosition st \<longrightarrow> entryPrice st = js_add rh (Fin 0.01) \<and> stopPrice st = rl)"
    and "btLoop symbol params rh rl rhh i cs st = Inl t"
  shows "it_side t = LONG \<and> it_entryPrice t = js_add rh (Fin 0.01)
       \<and> (it_reason t = ''STOP_LOSS'' \<longrightarrow> it_exitPrice t = rl)"
  using assms
proof (induction cs arbitrary: i st)
  case Nil
  then show ?case by simp
next
  case (Cons c cs)
  show ?case
  proof (cases "inPosition st")
    case True
    from Cons.prems(2) have e: "(if js_le (Fin (c_low c)) (stopPrice st) then
        Inl (exitTrade symbol st (c_date c) (stopPrice st) ''STOP_LOSS'')
      else if js_ge (Fin (c_high c)) (targetPrice st) then
        Inl (exitTrade symbol st (c_date c) (targetPrice st) ''TARGET_HIT'')
      else if real i \<ge> real (rangeMinutes params) + maxHoldMinutes params then
        Inl (exitTrade symbol st (c_date c) (Fin (c_close c)) ''TIME_EXIT'')
      else btLoop symbol params rh rl rhh (Suc i) cs st) = Inl t"
      unfolding btLoop_in[OF True] .
    have ep: "bt_side st = LONG" "entryPrice st = js_add rh (Fin 0.01)" "stopPrice st = rl"
      using Cons.prems(1) True by simp_all
    show ?thesis
    proof (cases "btLoop symbol params rh rl rhh (Suc i) cs st = Inl t")
      case True
      from Cons.IH[OF Cons.prems(1) True] show ?thesis .
    next
      case False
      with e have "t = exitTrade symbol st (c_date c) (stopPrice st) ''STOP_LOSS''
          \<or> t = exitTrade symbol st (c_date c) (targetPrice st) ''TARGET_HIT''
          \<or> t = exitTrade symbol st (c_date c) (Fin (c_close c)) ''TIME_EXIT''"
        by (metis sum.inject(1))
      then show ?thesis using ep by (auto simp: exitTrade_def)
    qed
  next
    case False
    let ?st = "st\<lparr>bt_side := LONG, entryPrice := js_add rh (Fin 0.01), entryTime := c_date c,
                  stopPrice := rl,
                  targetPrice := js_add (js_add rh (Fin 0.01)) (js_mul rhh (Fin (profitTargetR params))),
                  inPosition := True\<rparr>"
    from Cons.prems(2) have e: "(if js_gt (Fin (c_high c)) rh then
        btLoop symbol params rh rl rhh (Suc i) cs ?st
      else btLoop symbol params rh rl rhh (Suc i) cs st) = Inl t"
      unfolding btLoop_out[OF False] .
    show ?thesis
    proof (cases "js_gt (Fin (c_high c)) rh")
      case True
      have inv: "bt_side ?st = LONG
          \<and> (inPosition ?st \<longrightarrow> entryPrice ?st = js_add rh (Fin 0.01) \<and> stopPrice ?st = rl)"
        by simp
      from e True have "btLoop symbol params rh rl rhh (Suc i) cs ?st = Inl t" by simp
      from Cons.IH[OF inv this] show ?thesis .
    next
      case nb: False
      from e nb have "btLoop symbol params rh rl rhh (Suc i) cs st = Inl t" by simp
      from Cons.IH[OF Cons.prems(1) this] show ?thesis .
    qed
  qed
qed

lemma btLoop_inv_Inr:
  assumes "bt_side st = LONG
      \<and> (inPosition st \<longrightarrow> entryPrice st = js_add rh (Fin 0.01) \<and> stopPrice st = rl)"
    and "btLoop symbol params rh rl rhh i cs st = Inr st'"
  shows "bt_side st' = LONG
      \<and> (inPosition st' \<longrightarrow> entryPrice st' = js_add rh (Fin 0.01) \<and> stopPrice st' = rl)"
  using assms
proof (induction cs arbitrary: i st)
  case Nil
  then show ?case by simp
next
  case (Cons c cs)
  show ?case
  proof (cases "inPosition st")
    case True
    from Cons.prems(2) have e: "(if js_le (Fin (c_low c)) (stopPrice st) then
        Inl (exitTrade symbol st (c_date c) (stopPrice st) ''STOP_LOSS'')
      else if js_ge (Fin (c_high c)) (targetPrice st) then
        Inl (exitTrade symbol st (c_date c) (targetPrice st) ''TARGET_HIT'')
      else if real i \<ge> real (rangeMinutes params) + maxHoldMinutes params then
        Inl (exitTrade symbol st (c_date c) (Fin (c_close c)) ''TIME_EXIT'')
      else btLoop symbol params rh rl rhh (Suc i) cs st) = Inr st'"
      unfolding btLoop_in[OF True] .
    then have "btLoop symbol params rh rl rhh (Suc i) cs st = Inr st'"
      by (metis sum.distinct(1))
    from Cons.IH[OF Cons.prems(1) this] show ?thesis .
  next
    case False
    let ?st = "st\<lparr>bt_side := LONG, entryPrice := js_add rh (Fin 0.01), entryTime := c_date c,
                  stopPrice := rl,
                  targetPrice := js_add (js_add rh (Fin 0.01)) (js_mul rhh (Fin (profitTargetR params))),
                  inPosition := True\<rparr>"
    from Cons.prems(2) have e: "(if js_gt (Fin (c_high c)) rh then
        btLoop symbol params rh rl rhh (Suc i) cs ?st
      else btLoop symbol params rh rl rhh (Suc i) cs st) = Inr st'"
      unfolding btLoop_out[OF False] .
    show ?thesis
    proof (cases "js_gt (Fin (c_high c)) rh")
      case True
      have inv: "bt_side ?st = LONG
          \<and> (inPosition ?st \<longrightarrow> entryPrice ?st = js_add rh (Fin 0.01) \<and> stopPrice ?st = rl)"
        by simp
      from e True have "btLoop symbol params rh rl rhh (Suc i) cs ?st = Inr st'" by simp
      from Cons.IH[OF inv this] show ?thesis .
    next
      case nb: False
      from e nb have "btLoop symbol params rh rl rhh (Suc i) cs st = Inr st'" by simp
      from Cons.IH[OF Cons.prems(1) this] show ?thesis .
    qed
  qed
qed

lemma backtestDay_Some:
  assumes "backtestDay symbol cs params = Some t"
  shows "rangeMinutes params + 1 \<le> length cs
       \<and> it_side t = LONG
       \<and> it_entryPrice t =
           js_add (Math_max (map c_high (take (rangeMinutes params) cs))) (Fin 0.01)
       \<and> (it_reason t = ''STOP_LOSS'' \<longrightarrow>
            it_exitPrice t = Math_min (map c_low (take (rangeMinutes params) cs)))"
proof -
  define n where "n = rangeMinutes params"
  define rh where "rh = Math_max (map c_high (take n cs))"
  define rl where "rl = Math_min (map c_low (take n cs))"
  define r where "r = btLoop symbol params rh rl (js_sub rh rl) n (drop n cs) bt_init"
  have len: "n + 1 \<le> length cs"
    using assms by (auto simp: backtestDay_def n_def split: if_splits)
  have nz: "\<not> js_is_zero (js_sub rh rl)"
    using assms len
    by (auto simp: backtestDay_def Let_def n_def rh_def rl_def split: if_splits)
  have res: "(case r of Inl t' \<Rightarrow> Some t'
      | Inr st \<Rightarrow> if inPosition st
          then let lastCandle = cs ! (length cs - 1)
               in Some (exitTrade symbol st (c_date lastCandle) (Fin (c_close lastCandle))
                          ''EOD_EXIT'')
          else None) = Some t"
    using assms len nz
    by (simp add: backtestDay_def Let_def n_def rh_def rl_def r_def)
  have init: "bt_side bt_init = LONG
      \<and> (inPosition bt_init \<longrightarrow> entryPrice bt_init = js_add rh (Fin 0.01) \<and> stopPrice bt_init = rl)"
    by (simp add: bt_init_def)
  have "it_side t = LONG \<and> it_entryPrice t = js_add rh (Fin 0.01)
       \<and> (it_reason t = ''STOP_LOSS'' \<longrightarrow> it_exitPrice t = rl)"
  proof (cases r)
    case (Inl t')
    with res have "t' = t" by simp
    with Inl have "btLoop symbol params rh rl (js_sub rh rl) n (drop n cs) bt_init = Inl t"
      by (simp add: r_def)
    from btLoop_inv_Inl[OF init this] show ?thesis .
  next
    case (Inr st)
    with res have op: "inPosition st"
      and t: "t = exitTrade symbol st (c_date (cs ! (length cs - 1)))
                       (Fin (c_close (cs ! (length cs - 1)))) ''EOD_EXIT''"
      by (simp_all add: Let_def split: if_splits)
    from Inr have "btLoop symbol params rh rl (js_sub rh rl) n (drop n cs) bt_init = Inr st"
      by (simp add: r_def)
    from btLoop_inv_Inr[OF init this] op t show ?thesis
      by (simp add: exitTrade_def)
  qed
  with len show ?thesis by (simp add: n_def rh_def rl_def)
qed

text \<open>Once a position is open the loop returns a trade or ends with the position open.\<close>

lemma btLoop_open:
  "inPosition st \<Longrightarrow>
   (\<exists>t. btLoop symbol params rh rl rhh i cs st = Inl t)
   \<or> btLoop symbol params rh rl rhh i cs st = Inr st"
proof (induction cs arbitrary: i)
  case Nil
  then show ?case by simp
next
  case (Cons c cs)
  from Cons.IH[OF Cons.prems, of "Suc i"] show ?case
    unfolding btLoop_in[OF Cons.prems] by auto
qed

lemma btLoop_breakout:
  assumes "\<not> inPosition st" and "\<exists>c\<in>set cs. js_gt (Fin (c_high c)) rh"
  shows "(\<exists>t. btLoop symbol params rh rl rhh i cs st = Inl t)
       \<or> (\<exists>st'. btLoop symbol params rh rl rhh i cs st = Inr st' \<and> inPosition st')"
  using assms
proof (induction cs arbitrary: i)
  case Nil
  then show ?case by simp
next
  case (Cons c cs)
  let ?st = "st\<lparr>bt_side := LONG, entryPrice := js_add rh (Fin 0.01), entryTime := c_date c,
                stopPrice := rl,
                targetPrice := js_add (js_add rh (Fin 0.01)) (js_mul rhh (Fin (profitTargetR params))),
                inPosition := True\<rparr>"
  show ?case
  proof (cases "js_gt (Fin (c_high c)) rh")
    case True
    have "inPosition ?st" by simp
    from btLoop_open[OF this, of symbol params rh rl rhh "Suc i" cs] True show ?thesis
      unfolding btLoop_out[OF Cons.prems(1)] by auto
  next
    case False
    with Cons.prems(2) have "\<exists>c\<in>set cs. js_gt (Fin (c_high c)) rh" by simp
    from Cons.IH[OF Cons.prems(1) this, of "Suc i"] False show ?thesis
      unfolding btLoop_out[OF Cons.prems(1)] by simp
  qed
qed

lemma btLoop_no_breakout:
  assumes "\<not> inPosition st" and "\<forall>c\<in>set cs. \<not> js_gt (Fin (c_high c)) rh"
  shows "btLoop symbol params rh rl rhh i cs st = Inr st"
  using assms
proof (induction cs arbitrary: i)
  case Nil
  then show ?case by simp
next
  case (Cons c cs)
  from Cons.prems(2) have nb: "\<not> js_gt (Fin (c_high c)) rh"
    and rest: "\<forall>c\<in>set cs. \<not> js_gt (Fin (c_high c)) rh" by simp_all
  from Cons.IH[OF Cons.prems(1) rest, of "Suc i"] nb show ?case
    unfolding btLoop_out[OF Cons.prems(1)] by simp
qed

lemma backtestDay_unfold:
  assumes "rangeMinutes params + 1 \<le> length cs"
    and "\<not> js_is_zero (js_sub (Math_max (map c_high (take (rangeMinutes params) cs)))
                              (Math_min (map c_low (take (rangeMinutes params) cs))))"
  shows "backtestDay symbol cs params =
     (case btLoop symbol params (Math_max (map c_high (take (rangeMinutes params) cs)))
             (Math_min (map c_low (take (rangeMinutes params) cs)))
             (js_sub (Math_max (map c_high (take (rangeMinutes params) cs)))
                     (Math_min (map c_low (take (rangeMinutes params) cs))))
             (rangeMinutes params) (drop (rangeMinutes params) cs) bt_init of
        Inl t \<Rightarrow> Some t
      | Inr st \<Rightarrow>
          if inPosition st then
            let lastCandle = cs ! (length cs - 1) in
            Some (exitTrade symbol st (c_date lastCandle) (Fin (c_close lastCandle)) ''EOD_EXIT'')
          else None)"
  using assms by (simp add: backtestDay_def Let_def)

lemma js_sub_Fin: "js_sub (Fin a) (Fin b) = Fin (a - b)"
  by (simp add: js_sub_def)

lemma backtestDay_breakout:
  assumes "0 < rangeMinutes params" and "rangeMinutes params + 1 \<le> length cs"
    and "Max (set (map c_high (take (rangeMinutes params) cs)))
          \<noteq> Min (set (map c_low (take (rangeMinutes params) cs)))"
    and "rangeMinutes params \<le> b" and "b < length cs"
    and "c_high (cs ! b) > Max (set (map c_high (take (rangeMinutes params) cs)))"
  shows "\<exists>t. backtestDay symbol cs params = Some t"
proof -
  define n where "n = rangeMinutes params"
  define hi where "hi = Max (set (map c_high (take n cs)))"
  define lo where "lo = Min (set (map c_low (take n cs)))"
  have ne: "take n cs \<noteq> []" using assms(1,2) by (auto simp: n_def)
  then have mx: "Math_max (map c_high (take n cs)) = Fin hi"
    and mn: "Math_min (map c_low (take n cs)) = Fin lo"
    by (simp_all add: Math_max_def Math_min_def hi_def lo_def)
  have "hi \<noteq> lo" using assms(3) by (simp add: hi_def lo_def n_def)
  then have nz: "\<not> js_is_zero (js_sub (Fin hi) (Fin lo))"
    by (simp add: js_sub_Fin)
  have "b - n < length (drop n cs)" "drop n cs ! (b - n) = cs ! b"
    using assms(4,5) by (simp_all add: n_def)
  then have "cs ! b \<in> set (drop n cs)" by (metis nth_mem)
  moreover have "js_gt (Fin (c_high (cs ! b))) (Fin hi)"
    using assms(6) by (simp add: js_gt_def hi_def n_def)
  ultimately have bo: "\<exists>c\<in>set (drop n cs). js_gt (Fin (c_high c)) (Fin hi)" by blast
  have ni: "\<not> inPosition bt_init" by (simp add: bt_init_def)
  have unf: "backtestDay symbol cs params =
     (case btLoop symbol params (Fin hi) (Fin lo) (js_sub (Fin hi) (Fin lo)) n (drop n cs) bt_init of
        Inl t \<Rightarrow> Some t
      | Inr st \<Rightarrow>
          if inPosition st then
            let lastCandle = cs ! (length cs - 1) in
            Some (exitTrade symbol st (c_date lastCandle) (Fin (c_close lastCandle)) ''EOD_EXIT'')
          else None)"
    using backtestDay_unfold[of params cs symbol] assms(2) nz
    unfolding n_def[symmetric] mx mn by blast
  from btLoop_breakout[OF ni bo, of symbol params "Fin lo" "js_sub (Fin hi) (Fin lo)" n]
  consider t where "btLoop symbol params (Fin hi) (Fin lo) (js_sub (Fin hi) (Fin lo)) n
                      (drop n cs) bt_init = Inl t"
    | st where "btLoop symbol params (Fin hi) (Fin lo) (js_sub (Fin hi) (Fin lo)) n
                      (drop n cs) bt_init = Inr st" "inPosition st"
    by blast
  then show ?thesis
  proof cases
    case 1
    then show ?thesis unfolding unf by simp
  next
    case 2
    then show ?thesis unfolding unf by (simp add: Let_def)
  qed
qed

lemma backtestDay_flat:
  assumes "0 < rangeMinutes params" and "rangeMinutes params + 1 \<le> length cs"
    and "Max (set (map c_high (take (rangeMinutes params) cs)))
          = Min (set (map c_low (take (rangeMinutes params) cs)))"
  shows "backtestDay symbol cs params = None"
proof -
  define n where "n = rangeMinutes params"
  define hi where "hi = Max (set (map c_high (take n cs)))"
  define lo where "lo = Min (set (map c_low (take n cs)))"
  have ne: "take n cs \<noteq> []" using assms(1,2) by (auto simp: n_def)
  then have mx: "Math_max (map c_high (take n cs)) = Fin hi"
    and mn: "Math_min (map c_low (take n cs)) = Fin lo"
    by (simp_all add: Math_max_def Math_min_def hi_def lo_def)
  have "hi = lo" using assms(3) by (simp add: hi_def lo_def n_def)
  then have "js_is_zero (js_sub (Fin hi) (Fin lo))" by (simp add: js_sub_Fin)
  then have "js_is_zero (js_sub (Math_max (map c_high (take (rangeMinutes params) cs)))
                                (Math_min (map c_low (take (rangeMinutes params) cs))))"
    unfolding mx[symmetric] mn[symmetric] n_def .
  then show ?thesis using assms(2) by (simp add: backtestDay_def Let_def)
qed

lemma backtestDay_no_breakout:
  assumes "0 < rangeMinutes params" and "rangeMinutes params + 1 \<le> length cs"
    and "\<forall>j. rangeMinutes params \<le> j \<and> j < length cs \<longrightarrow>
           \<not> c_high (cs ! j) > Max (set (map c_high (take (rangeMinutes params) cs)))"
  shows "backtestDay symbol cs params = None"
proof (cases "js_is_zero (js_sub (Math_max (map c_high (take (rangeMinutes params) cs)))
                                 (Math_min (map c_low (take (rangeMinutes params) cs))))")
  case True
  then show ?thesis using assms(2) by (simp add: backtestDay_def Let_def)
next
  case False
  define n where "n = rangeMinutes params"
  define hi where "hi = Max (set (map c_high (take n cs)))"
  define rl where "rl = Math_min (map c_low (take n cs))"
  have ne: "take n cs \<noteq> []" using assms(1,2) by (auto simp: n_def)
  then have mx: "Math_max (map c_high (take n cs)) = Fin hi"
    by (simp add: Math_max_def hi_def)
  have nb: "\<forall>c\<in>set (drop n cs). \<not> js_gt (Fin (c_high c)) (Fin hi)"
  proof
    fix c assume "c \<in> set (drop n cs)"
    then obtain j where "j < length cs - n" "c = cs ! (n + j)"
      by (auto simp: in_set_conv_nth)
    then show "\<not> js_gt (Fin (c_high c)) (Fin hi)"
      using assms(3) by (simp add: js_gt_def hi_def n_def)
  qed
  have ni: "\<not> inPosition bt_init" by (simp add: bt_init_def)
  have loop: "btLoop symbol params (Fin hi) rl (js_sub (Fin hi) rl) n (drop n cs) bt_init
                = Inr bt_init"
    by (rule btLoop_no_breakout[OF ni nb])
  have unf: "backtestDay symbol cs params =
     (case btLoop symbol params (Fin hi) rl (js_sub (Fin hi) rl) n (drop n cs) bt_init of
        Inl t \<Rightarrow> Some t
      | Inr st \<Rightarrow>
          if inPosition st then
            let lastCandle = cs ! (length cs - 1) in
            Some (exitTrade symbol st (c_date lastCandle) (Fin (c_close lastCandle)) ''EOD_EXIT'')
          else None)"
    using backtestDay_unfold[of params cs symbol] assms(2) False
    unfolding n_def[symmetric] mx rl_def[symmetric] by blast
  show ?thesis unfolding unf loop using ni by simp
qed

text \<open>
  Claim C5. A session of fewer than seven candles gives no signal in \<^verbatim>\<open>checkSignal\<close>
  (its opening range is six candles), and a day of fewer than \<open>rangeMinutes + 1\<close> candles
  gives no trade in \<^verbatim>\<open>backtestDay\<close>. Otherwise the range is \<open>hi\<close>, the maximum of the highs
  of the window, \<open>lo\<close>, the minimum of its lows, and \<open>avg\<close>, the sum of its volumes divided by
  their number, and the functions decide and build their results from these. For
  \<^verbatim>\<open>checkSignal\<close>: a session of at least seven candles whose range percent
  \<open>(hi - lo) / lo\<close> is outside the band gives no signal; one that passes the filters and
  whose first triggering candle is \<open>m\<close> gives the signal with range height \<open>hi - lo\<close>, entry
  at \<open>hi\<close> and stop at \<open>lo\<close> (LONG) or the reverse (SHORT), target one range height beyond the
  entry, and relative volume the volume of candle \<open>m\<close> over \<open>avg\<close>; and every signal
  returned has these values. For \<^verbatim>\<open>backtestDay\<close> with a window of at least one candle: a
  day with enough candles gives no trade when the maximum equals the minimum or when no
  later candle has a high above the maximum; when some later candle has, it gives a trade
  entered one cent above the maximum; and every trade returned is entered there and, when
  stopped, exits at the minimum.
\<close>

theorem opening_range:
  fixes candles :: "candle list" and params :: ORBParams
  defines "hi \<equiv> Max (set (map c_high (take 6 candles)))"
    and "lo \<equiv> Min (set (map c_low (take 6 candles)))"
    and "avg \<equiv> sum_list (map c_volume (take 6 candles)) / real (length (take 6 candles))"
    and "n \<equiv> rangeMinutes params"
    and "dhi \<equiv> Max (set (map c_high (take (rangeMinutes params) candles)))"
    and "dlo \<equiv> Min (set (map c_low (take (rangeMinutes params) candles)))"
  shows "(length candles < 7 \<longrightarrow> checkSignal symbol candles prevClose = None)
   \<and> (length candles < n + 1 \<longrightarrow> backtestDay symbol candles params = None)
   \<and> (checkSignal symbol candles prevClose = Some sg \<longrightarrow>
        sig_rangeHeight sg = hi - lo
        \<and> sig_entryPrice sg = (if sig_side sg = LONG then hi else lo)
        \<and> sig_stop sg = (if sig_side sg = LONG then lo else hi)
        \<and> sig_relVol sg = (if avg > 0 then c_volume (hd (sig_candles sg)) / avg else 0))
   \<and> (7 \<le> length candles
       \<and> \<not> c_close (candles ! 0) < 5
       \<and> \<not> js_lt (js_abs (js_div (Fin (c_open (candles ! 0) - prevClose)) (Fin prevClose)))
                (Fin 0.002)
       \<and> \<not> js_lt (js_div (Fin (hi - lo)) (Fin lo)) (Fin 0.005)
       \<and> \<not> js_gt (js_div (Fin (hi - lo)) (Fin lo)) (Fin 0.12)
       \<and> 6 \<le> m \<and> m < length candles
       \<and> triggers hi lo avg (candles ! m)
       \<and> (\<forall>j. 6 \<le> j \<and> j < m \<longrightarrow> \<not> triggers hi lo avg (candles ! j)) \<longrightarrow>
      checkSignal symbol candles prevClose =
        Some \<lparr>sig_symbol = symbol,
              sig_side = (if c_high (candles ! m) > hi then LONG else SHORT),
              sig_entryPrice = (if c_high (candles ! m) > hi then hi else lo),
              sig_stop = (if c_high (candles ! m) > hi then lo else hi),
              sig_target1 = (if c_high (candles ! m) > hi then hi + (hi - lo)
                             else lo - (hi - lo)),
              sig_rangeHeight = hi - lo,
              sig_candles = drop m candles,
              sig_relVol = (if avg > 0 then c_volume (candles ! m) / avg else 0)\<rparr>)
   \<and> (7 \<le> length candles
       \<and> (js_lt (js_div (Fin (hi - lo)) (Fin lo)) (Fin 0.005)
          \<or> js_gt (js_div (Fin (hi - lo)) (Fin lo)) (Fin 0.12)) \<longrightarrow>
      checkSignal symbol candles prevClose = None)
   \<and> (backtestDay symbol candles params = Some t \<and> 0 < n \<longrightarrow>
        it_entryPrice t = Fin (dhi + 0.01)
        \<and> (it_reason t = ''STOP_LOSS'' \<longrightarrow> it_exitPrice t = Fin dlo))
   \<and> (0 < n \<and> n + 1 \<le> length candles \<and> dhi \<noteq> dlo
       \<and> n \<le> b \<and> b < length candles \<and> c_high (candles ! b) > dhi \<longrightarrow>
      (\<exists>u. backtestDay symbol candles params = Some u \<and> it_entryPrice u = Fin (dhi + 0.01)))
   \<and> (0 < n \<and> n + 1 \<le> length candles \<and> dhi = dlo \<longrightarrow>
      backtestDay symbol candles params = None)
   \<and> (0 < n \<and> n + 1 \<le> length candles
       \<and> (\<forall>j. n \<le> j \<and> j < length candles \<longrightarrow> \<not> c_high (candles ! j) > dhi) \<longrightarrow>
      backtestDay symbol candles params = None)"
proof -
  have l6: "7 \<le> length candles \<Longrightarrow> avg = sum_list (map c_volume (take 6 candles)) / 6"
    by (simp add: avg_def)
  have c1: "length candles < 7 \<longrightarrow> checkSignal symbol candles prevClose = None"
    by (simp add: checkSignal_def)
  have c2: "length candles < n + 1 \<longrightarrow> backtestDay symbol candles params = None"
    by (simp add: backtestDay_def n_def)
  have c3: "checkSignal symbol candles prevClose = Some sg \<longrightarrow>
        sig_rangeHeight sg = hi - lo
        \<and> sig_entryPrice sg = (if sig_side sg = LONG then hi else lo)
        \<and> sig_stop sg = (if sig_side sg = LONG then lo else hi)
        \<and> sig_relVol sg = (if avg > 0 then c_volume (hd (sig_candles sg)) / avg else 0)"
  proof
    assume s: "checkSignal symbol candles prevClose = Some sg"
    from checkSignal_Some[OF s] obtain k sd rv where
      len: "7 \<le> length candles" and
      sc: "scanTrigger hi lo (sum_list (map c_volume (take 6 candles)) / 6) 6 (drop 6 candles)
             = Some (k, sd, rv)"
      and f: "sig_side sg = sd" "sig_relVol sg = rv" "sig_candles sg = drop k candles"
        "sig_entryPrice sg = (if sd = LONG then hi else lo)"
        "sig_stop sg = (if sd = LONG then lo else hi)"
        "sig_rangeHeight sg = hi - lo"
      unfolding hi_def lo_def by blast
    from scanTrigger_index[OF sc] have k: "k < length candles"
      and rv: "rv = (if sum_list (map c_volume (take 6 candles)) / 6 > 0
                     then c_volume (candles ! k) / (sum_list (map c_volume (take 6 candles)) / 6)
                     else 0)"
      by simp_all
    have hd: "hd (drop k candles) = candles ! k" using k by (simp add: hd_drop_conv_nth)
    show "sig_rangeHeight sg = hi - lo
        \<and> sig_entryPrice sg = (if sig_side sg = LONG then hi else lo)
        \<and> sig_stop sg = (if sig_side sg = LONG then lo else hi)
        \<and> sig_relVol sg = (if avg > 0 then c_volume (hd (sig_candles sg)) / avg else 0)"
      unfolding l6[OF len] using f rv hd by simp
  qed
  have c4: "7 \<le> length candles
       \<and> \<not> c_close (candles ! 0) < 5
       \<and> \<not> js_lt (js_abs (js_div (Fin (c_open (candles ! 0) - prevClose)) (Fin prevClose)))
                (Fin 0.002)
       \<and> \<not> js_lt (js_div (Fin (hi - lo)) (Fin lo)) (Fin 0.005)
       \<and> \<not> js_gt (js_div (Fin (hi - lo)) (Fin lo)) (Fin 0.12)
       \<and> 6 \<le> m \<and> m < length candles
       \<and> triggers hi lo avg (candles ! m)
       \<and> (\<forall>j. 6 \<le> j \<and> j < m \<longrightarrow> \<not> triggers hi lo avg (candles ! j)) \<longrightarrow>
      checkSignal symbol candles prevClose =
        Some \<lparr>sig_symbol = symbol,
              sig_side = (if c_high (candles ! m) > hi then LONG else SHORT),
              sig_entryPrice = (if c_high (candles ! m) > hi then hi else lo),
              sig_stop = (if c_high (candles ! m) > hi then lo else hi),
              sig_target1 = (if c_high (candles ! m) > hi then hi + (hi - lo)
                             else lo - (hi - lo)),
              sig_rangeHeight = hi - lo,
              sig_candles = drop m candles,
              sig_relVol = (if avg > 0 then c_volume (candles ! m) / avg else 0)\<rparr>"
  proof
    assume h: "7 \<le> length candles
       \<and> \<not> c_close (candles ! 0) < 5
       \<and> \<not> js_lt (js_abs (js_div (Fin (c_open (candles ! 0) - prevClose)) (Fin prevClose)))
                (Fin 0.002)
       \<and> \<not> js_lt (js_div (Fin (hi - lo)) (Fin lo)) (Fin 0.005)
       \<and> \<not> js_gt (js_div (Fin (hi - lo)) (Fin lo)) (Fin 0.12)
       \<and> 6 \<le> m \<and> m < length candles
       \<and> triggers hi lo avg (candles ! m)
       \<and> (\<forall>j. 6 \<le> j \<and> j < m \<longrightarrow> \<not> triggers hi lo avg (candles ! j))"
    then have len: "7 \<le> length candles" by simp
    from h show "checkSignal symbol candles prevClose =
        Some \<lparr>sig_symbol = symbol,
              sig_side = (if c_high (candles ! m) > hi then LONG else SHORT),
              sig_entryPrice = (if c_high (candles ! m) > hi then hi else lo),
              sig_stop = (if c_high (candles ! m) > hi then lo else hi),
              sig_target1 = (if c_high (candles ! m) > hi then hi + (hi - lo)
                             else lo - (hi - lo)),
              sig_rangeHeight = hi - lo,
              sig_candles = drop m candles,
              sig_relVol = (if avg > 0 then c_volume (candles ! m) / avg else 0)\<rparr>"
      unfolding l6[OF len] hi_def lo_def by (intro checkSignal_fires) simp_all
  qed
  have c5: "7 \<le> length candles
       \<and> (js_lt (js_div (Fin (hi - lo)) (Fin lo)) (Fin 0.005)
          \<or> js_gt (js_div (Fin (hi - lo)) (Fin lo)) (Fin 0.12)) \<longrightarrow>
      checkSignal symbol candles prevClose = None"
    unfolding hi_def lo_def checkSignal_def Let_def
    by (simp del: js_div.simps js_lt.simps js_abs.simps)
  have c6: "backtestDay symbol candles params = Some t \<and> 0 < n \<longrightarrow>
        it_entryPrice t = Fin (dhi + 0.01)
        \<and> (it_reason t = ''STOP_LOSS'' \<longrightarrow> it_exitPrice t = Fin dlo)"
  proof
    assume s: "backtestDay symbol candles params = Some t \<and> 0 < n"
    then have bd: "backtestDay symbol candles params = Some t" and pos: "0 < rangeMinutes params"
      by (simp_all add: n_def)
    note r = backtestDay_Some[OF bd]
    from r pos have ne: "take (rangeMinutes params) candles \<noteq> []" by auto
    then have mx: "Math_max (map c_high (take (rangeMinutes params) candles)) = Fin dhi"
      and mn: "Math_min (map c_low (take (rangeMinutes params) candles)) = Fin dlo"
      by (simp_all add: Math_max_def Math_min_def dhi_def dlo_def)
    from r show "it_entryPrice t = Fin (dhi + 0.01)
        \<and> (it_reason t = ''STOP_LOSS'' \<longrightarrow> it_exitPrice t = Fin dlo)"
      unfolding mx mn by simp
  qed
  have c7: "0 < n \<and> n + 1 \<le> length candles \<and> dhi \<noteq> dlo
       \<and> n \<le> b \<and> b < length candles \<and> c_high (candles ! b) > dhi \<longrightarrow>
      (\<exists>u. backtestDay symbol candles params = Some u \<and> it_entryPrice u = Fin (dhi + 0.01))"
  proof
    assume h: "0 < n \<and> n + 1 \<le> length candles \<and> dhi \<noteq> dlo
       \<and> n \<le> b \<and> b < length candles \<and> c_high (candles ! b) > dhi"
    then obtain u where u: "backtestDay symbol candles params = Some u"
      using backtestDay_breakout[of params candles b symbol]
      unfolding n_def dhi_def dlo_def by blast
    from h have pos: "0 < rangeMinutes params" by (simp add: n_def)
    note r = backtestDay_Some[OF u]
    from r pos have ne: "take (rangeMinutes params) candles \<noteq> []" by auto
    then have mx: "Math_max (map c_high (take (rangeMinutes params) candles)) = Fin dhi"
      by (simp add: Math_max_def dhi_def)
    from r have "it_entryPrice u = Fin (dhi + 0.01)" unfolding mx by simp
    with u show "\<exists>u. backtestDay symbol candles params = Some u
        \<and> it_entryPrice u = Fin (dhi + 0.01)" by blast
  qed
  have c8: "0 < n \<and> n + 1 \<le> length candles \<and> dhi = dlo \<longrightarrow>
      backtestDay symbol candles params = None"
    unfolding n_def dhi_def dlo_def using backtestDay_flat by blast
  have c9: "0 < n \<and> n + 1 \<le> length candles
       \<and> (\<forall>j. n \<le> j \<and> j < length candles \<longrightarrow> \<not> c_high (candles ! j) > dhi) \<longrightarrow>
      backtestDay symbol candles params = None"
    unfolding n_def dhi_def using backtestDay_no_breakout by blast
  from c1 c2 c3 c4 c5 c6 c7 c8 c9 show ?thesis by (intro conjI)
qed

lemma backtestDay_bothHitDay:
  "backtestDay ''XYZ'' bothHitDay orbParams =
     Some (exitTrade ''XYZ'' openState ''2024-01-02T14:33:00.000Z'' (Fin 100) ''STOP_LOSS'')"
  by (simp add: backtestDay_def bothHitDay_def orbParams_def Math_max_def Math_min_def
      js_sub_def js_gt_def js_ge_def bt_init_def openState_def exitTrade_def Let_def)

theorem opening_range_witness:
  "length (take 6 gapSession) < 7
 \<and> checkSignal ''XYZ'' (take 6 gapSession) 99 = None
 \<and> length (take 2 bothHitDay) < rangeMinutes orbParams + 1
 \<and> backtestDay ''XYZ'' (take 2 bothHitDay) orbParams = None
 \<and> checkSignal ''XYZ'' gapSession 99 = Some scenario1
 \<and> sig_rangeHeight scenario1 = 102 - 100
 \<and> sig_entryPrice scenario1 = 102 \<and> sig_stop scenario1 = 100
 \<and> sig_relVol scenario1 = 1300 / (6000 / 6)
 \<and> checkSignal ''XYZ'' tightSession 99 = None
 \<and> 0 < rangeMinutes orbParams
 \<and> backtestDay ''XYZ'' bothHitDay orbParams =
     Some (exitTrade ''XYZ'' openState ''2024-01-02T14:33:00.000Z'' (Fin 100) ''STOP_LOSS'')
 \<and> entryPrice openState = Fin (102 + 0.01)
 \<and> backtestDay ''XYZ'' flatDay orbParams = None
 \<and> backtestDay ''XYZ'' noBreakoutDay orbParams = None"
proof -
  have rng: "Max (set (map c_high (take 6 gapSession))) = 102"
    "Min (set (map c_low (take 6 gapSession))) = 100"
    "sum_list (map c_volume (take 6 gapSession)) / real (length (take 6 gapSession)) = 1000"
    by (simp_all add: gapSession_def)
  have tight: "Max (set (map c_high (take 6 tightSession))) = 100.3"
    "Min (set (map c_low (take 6 tightSession))) = 100"
    by (simp_all add: tightSession_def gapSession_def)
  have day: "rangeMinutes orbParams = 2"
    "Max (set (map c_high (take 2 bothHitDay))) = 102"
    "Min (set (map c_low (take 2 bothHitDay))) = 100"
    "Max (set (map c_high (take 2 flatDay))) = 101"
    "Min (set (map c_low (take 2 flatDay))) = 101"
    "Max (set (map c_high (take 2 noBreakoutDay))) = 102"
    by (simp_all add: orbParams_def bothHitDay_def flatDay_def noBreakoutDay_def)
  have short: "length (take 6 gapSession) < 7" "length (take 2 bothHitDay) < 2 + 1"
    by (simp_all add: gapSession_def bothHitDay_def)
  have pre: "7 \<le> length gapSession" "\<not> c_close (gapSession ! 0) < 5"
    "\<not> js_lt (js_abs (js_div (Fin (c_open (gapSession ! 0) - 99)) (Fin 99))) (Fin 0.002)"
    "\<not> js_lt (js_div (Fin (102 - 100)) (Fin 100)) (Fin 0.005)"
    "\<not> js_gt (js_div (Fin (102 - 100)) (Fin 100)) (Fin 0.12)"
    "(6 :: nat) \<le> 7" "7 < length gapSession"
    "triggers 102 100 1000 (gapSession ! 7)"
    by (simp_all add: gapSession_def scenario1_def js_gt_def triggers_def)
  have before: "\<forall>j. 6 \<le> j \<and> j < 7 \<longrightarrow> \<not> triggers 102 100 1000 (gapSession ! j)"
  proof (intro allI impI)
    fix j :: nat assume "6 \<le> j \<and> j < 7"
    then have "j = 6" by arith
    then show "\<not> triggers 102 100 1000 (gapSession ! j)"
      by (simp add: gapSession_def triggers_def)
  qed
  have fired: "\<lparr>sig_symbol = ''XYZ'',
        sig_side = (if c_high (gapSession ! 7) > 102 then LONG else SHORT),
        sig_entryPrice = (if c_high (gapSession ! 7) > 102 then 102 else 100),
        sig_stop = (if c_high (gapSession ! 7) > 102 then 100 else 102),
        sig_target1 = (if c_high (gapSession ! 7) > 102 then 102 + (102 - 100)
                       else 100 - (102 - 100)),
        sig_rangeHeight = 102 - 100,
        sig_candles = drop 7 gapSession,
        sig_relVol = (if (1000 :: real) > 0 then c_volume (gapSession ! 7) / 1000 else 0)\<rparr>
      = scenario1"
    by (simp add: gapSession_def scenario1_def)
  have tpre: "7 \<le> length tightSession"
    "js_lt (js_div (Fin (100.3 - 100)) (Fin 100)) (Fin 0.005)"
    by (simp_all add: tightSession_def gapSession_def scenario1_def)
  have dpre: "(0 :: nat) < 2" "2 + 1 \<le> length bothHitDay" "(102 :: real) \<noteq> 100"
    "(2 :: nat) \<le> 2" "2 < length bothHitDay" "c_high (bothHitDay ! 2) > 102"
    "2 + 1 \<le> length flatDay" "2 + 1 \<le> length noBreakoutDay"
    by (simp_all add: bothHitDay_def flatDay_def noBreakoutDay_def)
  have nobreak: "\<forall>j. 2 \<le> j \<and> j < length noBreakoutDay \<longrightarrow> \<not> c_high (noBreakoutDay ! j) > 102"
  proof (intro allI impI)
    fix j :: nat assume "2 \<le> j \<and> j < length noBreakoutDay"
    then have "j = 2" by (simp add: noBreakoutDay_def bothHitDay_def)
    then show "\<not> c_high (noBreakoutDay ! j) > 102"
      by (simp add: noBreakoutDay_def bothHitDay_def breakdownBar_def)
  qed
  note A = opening_range [where candles = "take 6 gapSession" and symbol = "''XYZ''"
      and prevClose = 99]
  note B = opening_range [where candles = "take 2 bothHitDay" and symbol = "''XYZ''"
      and params = orbParams, unfolded day]
  note C = opening_range [where candles = gapSession and symbol = "''XYZ''" and prevClose = 99
      and m = 7, unfolded rng]
  note D = opening_range [where candles = tightSession and symbol = "''XYZ''" and prevClose = 99,
      unfolded tight]
  note E = opening_range [where candles = bothHitDay and symbol = "''XYZ''" and params = orbParams
      and b = 2
      and t = "exitTrade ''XYZ'' openState ''2024-01-02T14:33:00.000Z'' (Fin 100) ''STOP_LOSS''",
      unfolded day]
  note F = opening_range [where candles = flatDay and symbol = "''XYZ''" and params = orbParams,
      unfolded day]
  note G = opening_range [where candles = noBreakoutDay and symbol = "''XYZ''"
      and params = orbParams, unfolded day]
  from A short(1) have w1: "checkSignal ''XYZ'' (take 6 gapSession) 99 = None" by blast
  from B short(2) have w2: "backtestDay ''XYZ'' (take 2 bothHitDay) orbParams = None" by blast
  from C pre before have w3: "checkSignal ''XYZ'' gapSession 99 = Some scenario1"
    unfolding fired by blast
  from C w3 have w4: "sig_rangeHeight scenario1 = 102 - 100
      \<and> sig_entryPrice scenario1 = (if sig_side scenario1 = LONG then 102 else 100)
      \<and> sig_stop scenario1 = (if sig_side scenario1 = LONG then 100 else 102)
      \<and> sig_relVol scenario1
          = (if (1000 :: real) > 0 then c_volume (hd (sig_candles scenario1)) / 1000 else 0)"
    by blast
  from D tpre have w5: "checkSignal ''XYZ'' tightSession 99 = None" by blast
  from E dpre obtain u where
    w6: "backtestDay ''XYZ'' bothHitDay orbParams = Some u" "it_entryPrice u = Fin (102 + 0.01)"
    by blast
  from w6 have w7: "backtestDay ''XYZ'' bothHitDay orbParams =
      Some (exitTrade ''XYZ'' openState ''2024-01-02T14:33:00.000Z'' (Fin 100) ''STOP_LOSS'')"
    "entryPrice openState = Fin (102 + 0.01)"
    by (auto simp: backtestDay_bothHitDay exitTrade_def)
  from F dpre have w8: "backtestDay ''XYZ'' flatDay orbParams = None" by blast
  from G dpre nobreak have w9: "backtestDay ''XYZ'' noBreakoutDay orbParams = None" by blast
  from w4 have w4': "sig_rangeHeight scenario1 = 102 - 100 \<and> sig_entryPrice scenario1 = 102
      \<and> sig_stop scenario1 = 100 \<and> sig_relVol scenario1 = 1300 / (6000 / 6)"
    by (simp add: scenario1_def)
  from short(1) short(2) w1 w2 w3 w4' w5 w7 w8 w9 show ?thesis
    by (simp add: day(1))
qed

section \<open>The time exit of backtestDay\<close>

text \<open>The time exit as the code tests it: by the index of the candle in the day.\<close>

lemma btLoop_time_exit:
  assumes "inPosition st"
    and "\<not> js_le (Fin (c_low c)) (stopPrice st)"
    and "\<not> js_ge (Fin (c_high c)) (targetPrice st)"
    and "real i \<ge> real (rangeMinutes params) + maxHoldMinutes params"
  shows "btLoop symbol params rangeHigh rangeLow rangeHeight i (c # rest) st =
           Inl (exitTrade symbol st (c_date c) (Fin (c_close c)) ''TIME_EXIT'')"
  using assms by (simp add: btLoop_in)

text \<open>
  Claim C8 fails on a day with a gap in its candles. \<^verbatim>\<open>backtestDay\<close> counts the time held
  by the index of the candle (\<^verbatim>\<open>i >= params.rangeMinutes + params.maxHoldMinutes\<close>, which
  its comments call an approximation that needs an accurate time difference), while the
  market simulator measures its time exit with \<^verbatim>\<open>getTimeDiffMinutes\<close> from the entry time. On
  \<open>gapDay\<close>, with a maximum hold of 60 minutes, the position is entered on the candle of
  14:32; the next candle is the one of 15:34, 62 minutes later, and reaches neither the stop
  at 100 nor the target at 106.01. Its index is 3, below 62, so there is no time exit: the
  position stays open and is stopped out on the candle of 15:35.
\<close>

theorem time_exit_gap_day:
  "maxHoldMinutes orbParams = 60
 \<and> entryTime openState = c_date (gapDay ! 2)
 \<and> getTimeDiffMinutes (entryTime openState) (c_date (gapDay ! 3)) = 62
 \<and> \<not> js_le (Fin (c_low (gapDay ! 3))) (stopPrice openState)
 \<and> \<not> js_ge (Fin (c_high (gapDay ! 3))) (targetPrice openState)
 \<and> btLoop ''XYZ'' orbParams (Fin 102) (Fin 100) (Fin 2) 2 (drop 2 (take 3 gapDay)) bt_init
      = Inr openState
 \<and> backtestDay ''XYZ'' gapDay orbParams =
      Some (exitTrade ''XYZ'' openState ''2024-01-02T15:35:00.000Z'' (Fin 100) ''STOP_LOSS'')"
  by (simp add: gapDay_def bothHitDay_def quietBar_def stopBar_def orbParams_def openState_def
      getTimeDiffMinutes_def minuteOfDay_def digitOf_def backtestDay_def Math_max_def
      Math_min_def js_sub_def js_gt_def js_ge_def bt_init_def exitTrade_def Let_def)

section \<open>The side of the trades of backtestIntraday\<close>

lemma backtestIntraday_set:
  "t \<in> set (backtestIntraday data symbol params) \<Longrightarrow>
   \<exists>dayCandles. backtestDay symbol dayCandles params = Some t"
  by (auto simp: backtestIntraday_def List.map_filter_def)

text \<open>
  Claim C9, as stated, fails on a bar that breaches the range on both sides. The claim
  says that a candle whose low falls below the range low never opens a position. On
  \<open>outsideDay\<close> (range 100 to 102) the third candle has its low at 99.2 and its high at
  102.5; no position is open when it is read, and it opens one: the loop tests the high
  only. The day's trade is entered on that candle.
\<close>

theorem outside_bar_counterexample:
  "c_low (outsideDay ! 2) < 100
 \<and> \<not> inPosition bt_init
 \<and> btLoop ''XYZ'' orbParams (Fin 102) (Fin 100) (Fin 2) 2 [outsideDay ! 2] bt_init
      = Inr openState
 \<and> inPosition openState
 \<and> entryTime openState = c_date (outsideDay ! 2)
 \<and> backtestDay ''XYZ'' outsideDay orbParams =
      Some (exitTrade ''XYZ'' openState ''2024-01-02T15:34:00.000Z'' (Fin 103.2) ''EOD_EXIT'')"
  by (simp add: outsideDay_def outsideBar_def bothHitDay_def quietBar_def orbParams_def
      openState_def backtestDay_def Math_max_def Math_min_def js_sub_def js_gt_def js_ge_def
      bt_init_def exitTrade_def Let_def)

text \<open>
  Claim C9, amended. Every trade that \<^verbatim>\<open>backtestIntraday\<close> returns has side LONG. While
  no position is open the low of a candle plays no part: a candle whose high does not
  exceed the range high leaves the state as it is, whatever its low, and the loop goes on
  to the next candle with no position; a candle whose high exceeds the range high opens a
  LONG position, also when its low falls below the range low. No short position is ever
  opened.
\<close>

theorem long_only:
  "(\<forall>t\<in>set (backtestIntraday data symbol params). it_side t = LONG)
 \<and> (\<not> inPosition st \<and> \<not> js_gt (Fin (c_high c)) rangeHigh \<longrightarrow>
      btLoop symbol params rangeHigh rangeLow rangeHeight i (c # rest) st =
        btLoop symbol params rangeHigh rangeLow rangeHeight (Suc i) rest st)
 \<and> (\<not> inPosition st \<and> js_gt (Fin (c_high c)) rangeHigh \<longrightarrow>
      btLoop symbol params rangeHigh rangeLow rangeHeight i (c # rest) st =
        btLoop symbol params rangeHigh rangeLow rangeHeight (Suc i) rest
          (st\<lparr>bt_side := LONG, entryPrice := js_add rangeHigh (Fin 0.01),
               entryTime := c_date c, stopPrice := rangeLow,
               targetPrice := js_add (js_add rangeHigh (Fin 0.01))
                                     (js_mul rangeHeight (Fin (profitTargetR params))),
               inPosition := True\<rparr>))"
proof -
  have "\<forall>t\<in>set (backtestIntraday data symbol params). it_side t = LONG"
  proof
    fix t assume "t \<in> set (backtestIntraday data symbol params)"
    from backtestIntraday_set[OF this] obtain dayCandles where
      "backtestDay symbol dayCandles params = Some t" by blast
    from backtestDay_Some[OF this] show "it_side t = LONG" by simp
  qed
  then show ?thesis by (simp add: btLoop_out Let_def)
qed

theorem long_only_witness:
  "backtestIntraday bothHitDay ''XYZ'' orbParams =
     [exitTrade ''XYZ'' openState ''2024-01-02T14:33:00.000Z'' (Fin 100) ''STOP_LOSS'']
 \<and> it_side (exitTrade ''XYZ'' openState ''2024-01-02T14:33:00.000Z'' (Fin 100) ''STOP_LOSS'') = LONG
 \<and> c_low breakdownBar < 100
 \<and> \<not> inPosition bt_init \<and> \<not> js_gt (Fin (c_high breakdownBar)) (Fin 102)
 \<and> btLoop ''XYZ'' orbParams (Fin 102) (Fin 100) (Fin 2) 2 [breakdownBar] bt_init = Inr bt_init
 \<and> c_low outsideBar < 100 \<and> js_gt (Fin (c_high outsideBar)) (Fin 102)
 \<and> btLoop ''XYZ'' orbParams (Fin 102) (Fin 100) (Fin 2) 2 [outsideBar] bt_init = Inr openState
 \<and> bt_side openState = LONG"
proof -
  have g: "groupCandlesByDay bothHitDay = [(''2024-01-02'', bothHitDay)]"
    by (simp add: groupCandlesByDay_def bothHitDay_def dayOf_def)
  have b: "backtestIntraday bothHitDay ''XYZ'' orbParams =
     [exitTrade ''XYZ'' openState ''2024-01-02T14:33:00.000Z'' (Fin 100) ''STOP_LOSS'']"
    by (simp add: backtestIntraday_def g backtestDay_bothHitDay)
  from b long_only [where data = bothHitDay and symbol = "''XYZ''" and params = orbParams
      and st = bt_init and c = breakdownBar and rangeHigh = "Fin 102" and rangeLow = "Fin 100"
      and rangeHeight = "Fin 2" and i = 2 and rest = "[]"]
    long_only [where data = bothHitDay and symbol = "''XYZ''" and params = orbParams
      and st = bt_init and c = outsideBar and rangeHigh = "Fin 102" and rangeLow = "Fin 100"
      and rangeHeight = "Fin 2" and i = 2 and rest = "[]"]
  show ?thesis
    by (simp add: breakdownBar_def outsideBar_def bt_init_def js_gt_def openState_def
        exitTrade_def orbParams_def)
qed

section \<open>Profit factors\<close>

lemma sum_list_pos_real:
  fixes xs :: "real list"
  shows "xs \<noteq> [] \<Longrightarrow> \<forall>x\<in>set xs. 0 < x \<Longrightarrow> 0 < sum_list xs"
proof (induction xs)
  case Nil
  then show ?case by simp
next
  case (Cons x xs)
  then show ?case by (cases xs) (auto intro: add_pos_pos)
qed

text \<open>
  Claim C6. \<^verbatim>\<open>aggregateResults\<close> returns a profit factor of 0 for the empty ledger and
  for a ledger with no winning trade; when the absolute sum of the losing returns is
  positive it returns the sum of the winning returns divided by it; when the losing returns
  sum to zero and there is a winning trade it returns \<^verbatim>\<open>Infinity\<close>, a winning trade being
  one with a positive return (\<^verbatim>\<open>won: pnlPercent > 0\<close>, as the backtest builds its
  trades); and it never returns NaN.
\<close>

theorem profitFactor_cases:
  "profitFactor (aggregateResults []) = Fin 0
 \<and> ((\<forall>t\<in>set ts. \<not> gt_won t) \<longrightarrow> profitFactor (aggregateResults ts) = Fin 0)
 \<and> (0 < \<bar>sum_list (map gt_pnlPercent (filter (\<lambda>t. \<not> gt_won t) ts))\<bar> \<longrightarrow>
      profitFactor (aggregateResults ts) =
        Fin (sum_list (map gt_pnlPercent (filter gt_won ts))
             / \<bar>sum_list (map gt_pnlPercent (filter (\<lambda>t. \<not> gt_won t) ts))\<bar>))
 \<and> ((\<forall>t\<in>set ts. gt_won t \<longrightarrow> 0 < gt_pnlPercent t)
      \<and> sum_list (map gt_pnlPercent (filter (\<lambda>t. \<not> gt_won t) ts)) = 0
      \<and> (\<exists>t\<in>set ts. gt_won t) \<longrightarrow>
      profitFactor (aggregateResults ts) = PInf)
 \<and> profitFactor (aggregateResults ts) \<noteq> NaN"
proof -
  have empty: "profitFactor (aggregateResults []) = Fin 0"
    by (simp add: aggregateResults_def)
  have losing: "(\<forall>t\<in>set ts. \<not> gt_won t) \<longrightarrow> profitFactor (aggregateResults ts) = Fin 0"
  proof
    assume "\<forall>t\<in>set ts. \<not> gt_won t"
    then have "filter gt_won ts = []" by (simp add: filter_empty_conv)
    then show "profitFactor (aggregateResults ts) = Fin 0"
      by (simp add: aggregateResults_def Let_def split: prod.splits)
  qed
  have ratio: "0 < \<bar>sum_list (map gt_pnlPercent (filter (\<lambda>t. \<not> gt_won t) ts))\<bar> \<longrightarrow>
      profitFactor (aggregateResults ts) =
        Fin (sum_list (map gt_pnlPercent (filter gt_won ts))
             / \<bar>sum_list (map gt_pnlPercent (filter (\<lambda>t. \<not> gt_won t) ts))\<bar>)"
    by (auto simp: aggregateResults_def Let_def split: prod.splits)
  have inf: "(\<forall>t\<in>set ts. gt_won t \<longrightarrow> 0 < gt_pnlPercent t)
      \<and> sum_list (map gt_pnlPercent (filter (\<lambda>t. \<not> gt_won t) ts)) = 0
      \<and> (\<exists>t\<in>set ts. gt_won t) \<longrightarrow>
      profitFactor (aggregateResults ts) = PInf"
  proof
    assume a: "(\<forall>t\<in>set ts. gt_won t \<longrightarrow> 0 < gt_pnlPercent t)
      \<and> sum_list (map gt_pnlPercent (filter (\<lambda>t. \<not> gt_won t) ts)) = 0
      \<and> (\<exists>t\<in>set ts. gt_won t)"
    then have ne: "map gt_pnlPercent (filter gt_won ts) \<noteq> []"
      by (auto simp: filter_empty_conv)
    have "0 < sum_list (map gt_pnlPercent (filter gt_won ts))"
      using ne a by (intro sum_list_pos_real) auto
    moreover have "ts \<noteq> []" using a by auto
    ultimately show "profitFactor (aggregateResults ts) = PInf"
      using a by (simp add: aggregateResults_def Let_def split: prod.splits)
  qed
  have nonan: "profitFactor (aggregateResults ts) \<noteq> NaN"
    by (simp add: aggregateResults_def Let_def split: prod.splits)
  from empty losing ratio inf nonan show ?thesis by (intro conjI)
qed

theorem profitFactor_cases_witness:
  "profitFactor (aggregateResults losersOnly) = Fin 0
 \<and> sum_list (map gt_pnlPercent (filter (\<lambda>t. \<not> gt_won t) mixedLedger)) = - 3
 \<and> sum_list (map gt_pnlPercent (filter gt_won mixedLedger)) = 6
 \<and> profitFactor (aggregateResults mixedLedger) = Fin 2
 \<and> sum_list (map gt_pnlPercent (filter (\<lambda>t. \<not> gt_won t) winnersOnly)) = 0
 \<and> profitFactor (aggregateResults winnersOnly) = PInf"
  using profitFactor_cases [of losersOnly] profitFactor_cases [of mixedLedger]
    profitFactor_cases [of winnersOnly]
  by (simp add: losersOnly_def mixedLedger_def winnersOnly_def gapTrade_def)

section \<open>Loading the daily state\<close>

text \<open>
  Claim C7. \<^verbatim>\<open>loadState\<close> of trade_bot.ts returns the stored state when its date is
  today's, and a fresh state for today when the date differs or the file is missing, as
  the claim says. For a file that is not JSON, or that cannot be read, the claim says a
  fresh state too; the function raises instead, since the exception of \<^verbatim>\<open>JSON.parse\<close> or
  \<^verbatim>\<open>fs.readFileSync\<close> leaves it. \<^verbatim>\<open>loadState\<close> of lose_bot.ts catches the exception and
  returns a fresh state.
\<close>

theorem loadState_corrupt_raises:
  "loadState ''2024-01-02'' Corrupt = Inl SyntaxError
 \<and> loadState ''2024-01-02'' Unreadable = Inl ReadError
 \<and> loadState ''2024-01-02'' (Stored storedState) = Inr storedState
 \<and> loadState ''2024-01-03'' (Stored storedState) =
     Inr \<lparr>bs_date = ''2024-01-03'', bs_positions = [], bs_ranges = Map.empty,
          bs_executed_trades = 0\<rparr>
 \<and> loadState ''2024-01-02'' Missing =
     Inr \<lparr>bs_date = ''2024-01-02'', bs_positions = [], bs_ranges = Map.empty,
          bs_executed_trades = 0\<rparr>
 \<and> loadState_lose ''2024-01-02'' Corrupt =
     Inr \<lparr>ls_date = ''2024-01-02'', ls_executedTrades = [], ls_heldSymbols = [],
          ls_totalSpent = 0\<rparr>
 \<and> loadState_lose ''2024-01-02'' Unreadable =
     Inr \<lparr>ls_date = ''2024-01-02'', ls_executedTrades = [], ls_heldSymbols = [],
          ls_totalSpent = 0\<rparr>"
  by (simp add: loadState_def loadState_lose_def storedState_def)

section \<open>The report of the portfolio backtest\<close>

lemma js_div_zero_not_Fin: "js_div w (Fin 0) \<noteq> Fin x"
  by (cases w) simp_all

lemma foldl_returns_pos:
  assumes "\<forall>t\<in>set ts. \<exists>r. 0 < r \<and> tr_returnPercent t = Fin r"
  shows "\<exists>s. foldl (\<lambda>sum t. js_add sum (tr_returnPercent t)) (Fin a) ts = Fin s
           \<and> a \<le> s \<and> (ts \<noteq> [] \<longrightarrow> a < s)"
  using assms
proof (induction ts arbitrary: a)
  case Nil
  then show ?case by simp
next
  case (Cons t ts)
  from Cons.prems obtain r where r: "0 < r" "tr_returnPercent t = Fin r" by auto
  from Cons.prems have "\<forall>t\<in>set ts. \<exists>r. 0 < r \<and> tr_returnPercent t = Fin r" by simp
  from Cons.IH[OF this, of "a + r"] obtain s where
    s: "foldl (\<lambda>sum t. js_add sum (tr_returnPercent t)) (Fin (a + r)) ts = Fin s" "a + r \<le> s"
    by blast
  with r show ?case by (intro exI[of _ s]) simp
qed

text \<open>
  Claim C10. The report divides by the number of executed trades and by the absolute sum
  of the losing returns with no test for zero. With no trade, the win rate, the average
  return and the profit factor are NaN. With no losing trade the profit factor is never a
  finite number; when moreover each winning trade has a positive finite return (as it has
  for a positive entry price), it is \<^verbatim>\<open>Infinity\<close> if there is a winning trade and NaN if
  there is none.
\<close>

theorem report_unguarded:
  "rp_winRate (portfolioReport []) = NaN
 \<and> rp_avgReturn (portfolioReport []) = NaN
 \<and> rp_profitFactor (portfolioReport []) = NaN
 \<and> ((\<forall>t\<in>set ts. \<not> tr_pnl t < 0) \<longrightarrow> (\<forall>x. rp_profitFactor (portfolioReport ts) \<noteq> Fin x))
 \<and> ((\<forall>t\<in>set ts. \<not> tr_pnl t < 0)
      \<and> (\<forall>t\<in>set ts. 0 < tr_pnl t \<longrightarrow> (\<exists>r. 0 < r \<and> tr_returnPercent t = Fin r)) \<longrightarrow>
      rp_profitFactor (portfolioReport ts) = (if \<exists>t\<in>set ts. 0 < tr_pnl t then PInf else NaN))"
proof -
  have empty: "rp_winRate (portfolioReport []) = NaN \<and> rp_avgReturn (portfolioReport []) = NaN
      \<and> rp_profitFactor (portfolioReport []) = NaN"
    by (simp add: portfolioReport_def sumReturns_def Let_def)
  have nolose: "(\<forall>t\<in>set ts. \<not> tr_pnl t < 0) \<Longrightarrow>
      rp_profitFactor (portfolioReport ts) =
        js_div (sumReturns (filter (\<lambda>t. tr_pnl t > 0) ts)) (Fin 0)"
  proof -
    assume "\<forall>t\<in>set ts. \<not> tr_pnl t < 0"
    then have "filter (\<lambda>t. tr_pnl t < 0) ts = []" by (simp add: filter_empty_conv)
    then show ?thesis by (simp add: portfolioReport_def sumReturns_def Let_def)
  qed
  have notfin: "(\<forall>t\<in>set ts. \<not> tr_pnl t < 0) \<longrightarrow>
      (\<forall>x. rp_profitFactor (portfolioReport ts) \<noteq> Fin x)"
    using nolose by (simp add: js_div_zero_not_Fin)
  have inf: "(\<forall>t\<in>set ts. \<not> tr_pnl t < 0)
      \<and> (\<forall>t\<in>set ts. 0 < tr_pnl t \<longrightarrow> (\<exists>r. 0 < r \<and> tr_returnPercent t = Fin r)) \<longrightarrow>
      rp_profitFactor (portfolioReport ts) = (if \<exists>t\<in>set ts. 0 < tr_pnl t then PInf else NaN)"
  proof
    assume a: "(\<forall>t\<in>set ts. \<not> tr_pnl t < 0)
      \<and> (\<forall>t\<in>set ts. 0 < tr_pnl t \<longrightarrow> (\<exists>r. 0 < r \<and> tr_returnPercent t = Fin r))"
    let ?ws = "filter (\<lambda>t. tr_pnl t > 0) ts"
    from a have "\<forall>t\<in>set ?ws. \<exists>r. 0 < r \<and> tr_returnPercent t = Fin r" by simp
    from foldl_returns_pos[OF this, of 0] obtain s where
      s: "sumReturns ?ws = Fin s" "0 \<le> s" "?ws \<noteq> [] \<longrightarrow> 0 < s"
      by (auto simp: sumReturns_def)
    have ex: "(\<exists>t\<in>set ts. 0 < tr_pnl t) \<longleftrightarrow> ?ws \<noteq> []"
      by (auto simp: filter_empty_conv)
    show "rp_profitFactor (portfolioReport ts) = (if \<exists>t\<in>set ts. 0 < tr_pnl t then PInf else NaN)"
    proof (cases "?ws = []")
      case True
      with a nolose ex show ?thesis by (simp add: sumReturns_def)
    next
      case False
      with s have "0 < s" by simp
      with a nolose ex False s(1) show ?thesis by simp
    qed
  qed
  from empty notfin inf show ?thesis by (intro conjI) simp_all
qed

theorem report_unguarded_witness:
  "\<not> tr_pnl scenario1Trade < 0
 \<and> 0 < tr_pnl scenario1Trade
 \<and> tr_returnPercent scenario1Trade = Fin (50 / 51)
 \<and> rp_winRate (portfolioReport [scenario1Trade]) = Fin 100
 \<and> rp_profitFactor (portfolioReport [scenario1Trade]) = PInf"
  using report_unguarded [of "[scenario1Trade]"]
  by (simp add: scenario1Trade_def portfolioReport_def sumReturns_def Let_def)

end
